theory Spec2Isabelle
  imports Main
begin

section \<open>Python values, as the tools of server.py handle them\<close>

text \<open>
  The tools of \<^verbatim>\<open>src/openproject_mcp_server/server.py\<close> receive optional integers and
  strings, build request payloads as dictionaries and read decoded JSON responses. All of
  these are Python values. A dictionary is an association list with string keys, in
  insertion order. A string is a list of characters, one character per code point (code
  points below 256). A float is carried by its \<^verbatim>\<open>repr\<close> text: the tools only store
  and print floats.
\<close>

datatype pyval =
    PNone
  | PBool bool
  | PInt int
  | PFloat string
  | PStr string
  | PList "pyval list"
  | PDict "(string \<times> pyval) list"

text \<open>
  Exceptions as values. \<open>ClientError\<close> is whatever a method of
  \<^verbatim>\<open>OpenProjectClient\<close> raises (the class is imported by server.py and is not part of
  it); the other constructors are the built-in exceptions that server.py itself can raise.
\<close>

datatype py_error =
    ValueError string
  | KeyError string
  | AttributeError string
  | TypeError string
  | ClientError string

text \<open>Truth value testing (\<^verbatim>\<open>if x:\<close>, \<^verbatim>\<open>not x\<close>).\<close>

fun truthy :: "pyval \<Rightarrow> bool" where
  "truthy PNone = False"
| "truthy (PBool b) = b"
| "truthy (PInt i) = (i \<noteq> 0)"
| "truthy (PFloat r) = (r \<noteq> ''0.0'' \<and> r \<noteq> ''-0.0'')"
| "truthy (PStr s) = (s \<noteq> [])"
| "truthy (PList xs) = (xs \<noteq> [])"
| "truthy (PDict d) = (d \<noteq> [])"

text \<open>Optional arguments (\<^verbatim>\<open>Optional[int]\<close>, \<^verbatim>\<open>Optional[str]\<close>, ...) as Python values.\<close>

fun opt_int :: "int option \<Rightarrow> pyval" where
  "opt_int None = PNone"
| "opt_int (Some i) = PInt i"

fun opt_str :: "string option \<Rightarrow> pyval" where
  "opt_str None = PNone"
| "opt_str (Some s) = PStr s"

fun opt_bool :: "bool option \<Rightarrow> pyval" where
  "opt_bool None = PNone"
| "opt_bool (Some b) = PBool b"

fun opt_int_list :: "int list option \<Rightarrow> pyval" where
  "opt_int_list None = PNone"
| "opt_int_list (Some is) = PList (map PInt is)"

text \<open>\<^verbatim>\<open>x is not None\<close>.\<close>

fun is_not_none :: "pyval \<Rightarrow> bool" where
  "is_not_none PNone = False"
| "is_not_none v = True"

text \<open>
  \<^verbatim>\<open>data[k] = v\<close> on a dictionary: an existing key keeps its place, a new key goes to the end.
\<close>

fun dict_set :: "(string \<times> pyval) list \<Rightarrow> string \<Rightarrow> pyval \<Rightarrow> (string \<times> pyval) list" where
  "dict_set [] k v = [(k, v)]"
| "dict_set ((k', v') # d) k v = (if k' = k then (k, v) # d else (k', v') # dict_set d k v)"

text \<open>\<^verbatim>\<open>x.get(k, default)\<close>: only a dictionary has the method.\<close>

fun py_get :: "pyval \<Rightarrow> string \<Rightarrow> pyval \<Rightarrow> py_error + pyval" where
  "py_get (PDict d) k dflt = Inr (case map_of d k of Some v \<Rightarrow> v | None \<Rightarrow> dflt)"
| "py_get v k dflt = Inl (AttributeError ''get'')"

text \<open>\<^verbatim>\<open>x[k]\<close> with a string key.\<close>

fun py_index :: "pyval \<Rightarrow> string \<Rightarrow> py_error + pyval" where
  "py_index (PDict d) k = (case map_of d k of Some v \<Rightarrow> Inr v | None \<Rightarrow> Inl (KeyError k))"
| "py_index (PList xs) k = Inl (TypeError ''list indices must be integers or slices, not str'')"
| "py_index (PStr s) k = Inl (TypeError ''string indices must be integers'')"
| "py_index v k = Inl (TypeError ''object is not subscriptable'')"

text \<open>\<^verbatim>\<open>len(x)\<close> and the items a \<^verbatim>\<open>for\<close> loop over \<open>x\<close> visits.\<close>

fun py_len :: "pyval \<Rightarrow> py_error + int" where
  "py_len (PList xs) = Inr (int (length xs))"
| "py_len (PDict d) = Inr (int (length d))"
| "py_len (PStr s) = Inr (int (length s))"
| "py_len v = Inl (TypeError ''object has no len()'')"

fun py_iter :: "pyval \<Rightarrow> py_error + pyval list" where
  "py_iter (PList xs) = Inr xs"
| "py_iter (PDict d) = Inr (map (\<lambda>kv. PStr (fst kv)) d)"
| "py_iter (PStr s) = Inr (map (\<lambda>c. PStr [c]) s)"
| "py_iter v = Inl (TypeError ''object is not iterable'')"

text \<open>
  Sequencing of steps that may raise: the first exception ends the computation, as it does
  inside the \<^verbatim>\<open>try\<close> block of a tool.
\<close>

fun bind_err :: "py_error + 'a \<Rightarrow> ('a \<Rightarrow> py_error + 'b) \<Rightarrow> py_error + 'b" where
  "bind_err (Inl e) f = Inl e"
| "bind_err (Inr x) f = f x"

section \<open>Text\<close>

text \<open>
  \<^verbatim>\<open>str(i)\<close> for an integer, and the text of an f-string as the list of its pieces: a
  literal, a pictograph (by code point; the messages of the tools start with one), the
  \<^verbatim>\<open>str\<close> of an interpolated value, or the \<^verbatim>\<open>str\<close> of a caught exception.
\<close>

fun digit_char :: "nat \<Rightarrow> char" where
  "digit_char n = char_of (48 + n mod 10)"

function str_nat :: "nat \<Rightarrow> string" where
  "str_nat n = (if n < 10 then [digit_char n] else str_nat (n div 10) @ [digit_char n])"
  by pat_completeness auto
termination
  by (relation "measure id") auto

declare str_nat.simps [simp del]

definition str_int :: "int \<Rightarrow> string" where
  "str_int i = (if i < 0 then CHR ''-'' # str_nat (nat (- i)) else str_nat (nat i))"

datatype frag =
    Lit string
  | Sym nat
  | Val pyval
  | Exc py_error

type_synonym message = "frag list"

text \<open>The line every tool returns from its \<^verbatim>\<open>except Exception as e\<close> handler.\<close>

definition error_text :: "py_error \<Rightarrow> message" where
  "error_text e = [Sym 0x274C, Lit '' Error: '', Exc e]"

section \<open>The connection handle and the client\<close>

text \<open>
  \<^verbatim>\<open>os.getenv\<close> reads the process environment; \<^verbatim>\<open>OpenProjectClient(base_url, api_key, proxy)\<close>
  is the connection handle. The class itself is imported by server.py: its constructor
  stores the three parameters, and each of its methods is one request to the remote
  service. A request is named after the method and carries the arguments server.py passes.
\<close>

type_synonym env = "string \<Rightarrow> string option"

record client_handle =
  base_url :: string
  api_key :: string
  proxy :: "string option"

datatype request =
    TestConnection
  | GetProjects "string option"
  | GetUsers "string option"
  | GetTimeEntries "string option"
  | GetTimeEntryActivities
  | GetWorkPackages "int option" "string option" "int option" "int option"
  | GetWorkPackage int
  | CreateProject pyval
  | UpdateProject int pyval
  | CreateWorkPackage pyval
  | UpdateWorkPackage int pyval
  | CreateTimeEntry pyval
  | CreateMembership pyval
  | ListWorkPackageChildren int bool
  | CreateWorkPackageRelation pyval
  | ListWorkPackageRelations "string option"

text \<open>
  The state of the server process: the global \<^verbatim>\<open>client\<close> (\<^verbatim>\<open>None\<close> until first use) and
  the requests made so far through the client's methods. The remote side is a parameter:
  it answers a request, given the requests before it, with a decoded JSON value or an
  exception.
\<close>

record server_state =
  client :: "client_handle option"
  sent :: "request list"

type_synonym remote = "request list \<Rightarrow> request \<Rightarrow> py_error + pyval"

definition call_client :: "remote \<Rightarrow> request \<Rightarrow> server_state \<Rightarrow> (py_error + pyval) \<times> server_state" where
  "call_client rem req st = (rem (sent st) req, st\<lparr>sent := sent st @ [req]\<rparr>)"

text \<open>\<^verbatim>\<open>s.lower()\<close>, and \<^verbatim>\<open>os.getenv(k, default)\<close>.\<close>

definition lower_char :: "char \<Rightarrow> char" where
  "lower_char c =
     (let n = (of_char c :: nat) in if 65 \<le> n \<and> n \<le> 90 then char_of (n + 32) else c)"

definition lower :: "string \<Rightarrow> string" where
  "lower s = map lower_char s"

definition getenv_default :: "env \<Rightarrow> string \<Rightarrow> string \<Rightarrow> string" where
  "getenv_default env k dflt = (case env k of Some v \<Rightarrow> v | None \<Rightarrow> dflt)"

text \<open>
  \<^verbatim>\<open>get_client\<close> (server.py, lines 36-58). The optional connection test swallows its
  exception (it is only logged), so it leaves nothing but the request behind.
\<close>

definition get_client :: "env \<Rightarrow> remote \<Rightarrow> server_state \<Rightarrow> (py_error + client_handle) \<times> server_state" where
  "get_client env rem st =
     (case client st of
        Some c \<Rightarrow> (Inr c, st)
      | None \<Rightarrow>
          (let url = env ''OPENPROJECT_URL'';
               key = env ''OPENPROJECT_API_KEY'';
               prx = env ''OPENPROJECT_PROXY''
           in if \<not> truthy (opt_str url) \<or> \<not> truthy (opt_str key)
              then (Inl (ValueError ''OPENPROJECT_URL and OPENPROJECT_API_KEY must be set''), st)
              else
                (let c = \<lparr>base_url = the url, api_key = the key, proxy = prx\<rparr>;
                     st1 = st\<lparr>client := Some c\<rparr>
                 in if lower (getenv_default env ''TEST_CONNECTION_ON_STARTUP'' ''false'') = ''true''
                    then (Inr c, snd (call_client rem TestConnection st1))
                    else (Inr c, st1))))"

text \<open>The process starts with no client and nothing sent.\<close>

definition initial_state :: server_state where
  "initial_state = \<lparr>client = None, sent = []\<rparr>"

section \<open>Filter expressions\<close>

text \<open>
  \<^verbatim>\<open>json.dumps\<close> with its default settings: \<^verbatim>\<open>', '\<close> between items, \<^verbatim>\<open>': '\<close> after a
  key, and every character outside the printable ASCII range escaped.
\<close>

fun join :: "string \<Rightarrow> string list \<Rightarrow> string" where
  "join sep [] = []"
| "join sep [x] = x"
| "join sep (x # y # ys) = x @ sep @ join sep (y # ys)"

definition hex_char :: "nat \<Rightarrow> char" where
  "hex_char n = (if n mod 16 < 10 then char_of (48 + n mod 16) else char_of (87 + n mod 16))"

definition json_escape_char :: "char \<Rightarrow> string" where
  "json_escape_char c =
     (let n = (of_char c :: nat) in
      if c = CHR 0x22 then [CHR 0x5C, CHR 0x22]
      else if c = CHR 0x5C then [CHR 0x5C, CHR 0x5C]
      else if n = 10 then [CHR 0x5C, CHR ''n'']
      else if n = 13 then [CHR 0x5C, CHR ''r'']
      else if n = 9 then [CHR 0x5C, CHR ''t'']
      else if n = 8 then [CHR 0x5C, CHR ''b'']
      else if n = 12 then [CHR 0x5C, CHR ''f'']
      else if 32 \<le> n \<and> n \<le> 126 then [c]
      else [CHR 0x5C, CHR ''u'', CHR ''0'', CHR ''0'', hex_char (n div 16), hex_char n])"

definition json_string :: "string \<Rightarrow> string" where
  "json_string s = [CHR 0x22] @ concat (map json_escape_char s) @ [CHR 0x22]"

primrec json_dumps :: "pyval \<Rightarrow> string" where
  "json_dumps PNone = ''null''"
| "json_dumps (PBool b) = (if b then ''true'' else ''false'')"
| "json_dumps (PInt i) = str_int i"
| "json_dumps (PFloat r) = r"
| "json_dumps (PStr s) = json_string s"
| "json_dumps (PList xs) = ''['' @ join '', '' (map json_dumps xs) @ '']''"
| "json_dumps (PDict d) =
     ''{'' @ join '', '' (map (\<lambda>kv. json_string (fst kv) @ '': '' @ snd kv) (map (map_prod id json_dumps) d)) @ ''}''"

text \<open>
  One predicate of the filter DSL, \<^verbatim>\<open>{field: {"operator": op, "values": vs}}\<close>, and the
  closing step shared by the list tools: \<^verbatim>\<open>json.dumps(filters) if filters else None\<close>.
\<close>

definition predicate :: "string \<Rightarrow> string \<Rightarrow> pyval list \<Rightarrow> pyval" where
  "predicate field operator vs = PDict [(field, PDict [(''operator'', PStr operator), (''values'', PList vs)])]"

definition dumps_or_none :: "pyval list \<Rightarrow> string option" where
  "dumps_or_none filters = (if truthy (PList filters) then Some (json_dumps (PList filters)) else None)"

text \<open>\<^verbatim>\<open>list_projects\<close> (lines 95-100) and \<^verbatim>\<open>list_users\<close> (lines 448-451): the request made.\<close>

definition list_projects_filters :: "bool \<Rightarrow> string option" where
  "list_projects_filters active_only =
     (let filters = None in
      if active_only then Some (json_dumps (PList [predicate ''active'' ''='' [PStr ''t'']]))
      else filters)"

definition list_projects_request :: "bool \<Rightarrow> request" where
  "list_projects_request active_only = GetProjects (list_projects_filters active_only)"

definition list_users_filters :: "bool \<Rightarrow> string option" where
  "list_users_filters active_only =
     (let filters = None in
      if active_only then Some (json_dumps (PList [predicate ''status'' ''='' [PStr ''active'']]))
      else filters)"

definition list_users_request :: "bool \<Rightarrow> request" where
  "list_users_request active_only = GetUsers (list_users_filters active_only)"

text \<open>\<^verbatim>\<open>list_time_entries\<close> (lines 837-844): the request made.\<close>

definition list_time_entries_filters :: "int option \<Rightarrow> int option \<Rightarrow> pyval list" where
  "list_time_entries_filters work_package_id user_id =
     (let filters = [];
          filters = (if truthy (opt_int work_package_id)
                     then filters @ [predicate ''work_package_id'' ''='' [PStr (str_int (the work_package_id))]]
                     else filters);
          filters = (if truthy (opt_int user_id)
                     then filters @ [predicate ''user_id'' ''='' [PStr (str_int (the user_id))]]
                     else filters)
      in filters)"

definition list_time_entries_request :: "int option \<Rightarrow> int option \<Rightarrow> request" where
  "list_time_entries_request work_package_id user_id =
     GetTimeEntries (dumps_or_none (list_time_entries_filters work_package_id user_id))"

text \<open>\<^verbatim>\<open>list_work_package_relations\<close> (lines 1141-1148): the request made.\<close>

definition list_work_package_relations_filters :: "int option \<Rightarrow> string option \<Rightarrow> pyval list" where
  "list_work_package_relations_filters work_package_id relation_type =
     (let filters = [];
          filters = (if truthy (opt_int work_package_id)
                     then filters @ [predicate ''involved'' ''='' [PStr (str_int (the work_package_id))]]
                     else filters);
          filters = (if truthy (opt_str relation_type)
                     then filters @ [predicate ''type'' ''='' [PStr (the relation_type)]]
                     else filters)
      in filters)"

definition list_work_package_relations_request :: "int option \<Rightarrow> string option \<Rightarrow> request" where
  "list_work_package_relations_request work_package_id relation_type =
     ListWorkPackageRelations (dumps_or_none (list_work_package_relations_filters work_package_id relation_type))"

text \<open>\<^verbatim>\<open>list_work_packages\<close> (lines 214-228): the status filter and the request made.\<close>

definition list_work_packages_filters :: "string \<Rightarrow> pyval list" where
  "list_work_packages_filters status =
     (let filters = [] in
      if status = ''open'' then filters @ [predicate ''status'' ''o'' []]
      else if status = ''closed'' then filters @ [predicate ''status'' ''c'' []]
      else filters)"

definition list_work_packages_request :: "int option \<Rightarrow> string \<Rightarrow> int option \<Rightarrow> int option \<Rightarrow> request" where
  "list_work_packages_request project_id status offset page_size =
     GetWorkPackages project_id (dumps_or_none (list_work_packages_filters status)) offset page_size"

section \<open>The shape of a tool\<close>

text \<open>
  Every tool is \<^verbatim>\<open>try: c = await get_client(); ... except Exception as e: return
  f"... Error: {str(e)}"\<close>. \<open>run_tool\<close> is that frame: the body runs once the client is
  there, and an exception of \<^verbatim>\<open>get_client\<close> or of the body becomes the error line.
  \<open>then_render\<close> passes the answer of a client call to the code that formats it.
\<close>

definition run_tool ::
  "env \<Rightarrow> remote \<Rightarrow> server_state \<Rightarrow> (server_state \<Rightarrow> (py_error + message) \<times> server_state)
     \<Rightarrow> message \<times> server_state" where
  "run_tool env rem st body =
     (case get_client env rem st of
        (Inl e, st1) \<Rightarrow> (error_text e, st1)
      | (Inr c, st1) \<Rightarrow>
          (case body st1 of
             (Inl e, st2) \<Rightarrow> (error_text e, st2)
           | (Inr t, st2) \<Rightarrow> (t, st2)))"

definition then_render ::
  "(py_error + pyval) \<times> server_state \<Rightarrow> (pyval \<Rightarrow> py_error + message)
     \<Rightarrow> (py_error + message) \<times> server_state" where
  "then_render r f = (bind_err (fst r) f, snd r)"

text \<open>A \<^verbatim>\<open>for\<close> loop that appends the text of each item.\<close>

fun render_each :: "(pyval \<Rightarrow> py_error + message) \<Rightarrow> pyval list \<Rightarrow> py_error + message" where
  "render_each f [] = Inr []"
| "render_each f (x # xs) =
     bind_err (f x) (\<lambda>t. bind_err (render_each f xs) (\<lambda>ts. Inr (t @ ts)))"

section \<open>Reading work packages\<close>

text \<open>
  \<^verbatim>\<open>wp.get("_embedded", {}).get(rel, {}).get("name", default)\<close>, the defensive read of an
  embedded resource's name.
\<close>

definition embedded_name :: "pyval \<Rightarrow> string \<Rightarrow> string \<Rightarrow> py_error + pyval" where
  "embedded_name wp rel dflt =
     bind_err (py_get wp ''_embedded'' (PDict [])) (\<lambda>e.
     bind_err (py_get e rel (PDict [])) (\<lambda>r.
     py_get r ''name'' (PStr dflt)))"

text \<open>
  \<^verbatim>\<open>if wp.get("_embedded", {}).get(rel): x = wp["_embedded"][rel].get("name", default)\<close>:
  the name of an embedded resource that is shown only when the resource is there.
\<close>

definition optional_embedded_name :: "pyval \<Rightarrow> string \<Rightarrow> string \<Rightarrow> py_error + pyval option" where
  "optional_embedded_name wp rel dflt =
     bind_err (py_get wp ''_embedded'' (PDict [])) (\<lambda>e.
     bind_err (py_get e rel PNone) (\<lambda>r.
     if truthy r
     then bind_err (py_index wp ''_embedded'') (\<lambda>e2.
          bind_err (py_index e2 rel) (\<lambda>r2.
          bind_err (py_get r2 ''name'' (PStr dflt)) (\<lambda>n. Inr (Some n))))
     else Inr None))"

definition optional_line :: "string \<Rightarrow> pyval option \<Rightarrow> message" where
  "optional_line label v = (case v of None \<Rightarrow> [] | Some n \<Rightarrow> [Lit label, Val n, Lit ''\<newline>''])"




text \<open>
  The reads of embedded names, under the names of the local variables they are assigned
  to: \<^verbatim>\<open>status_name\<close>, \<^verbatim>\<open>wp_type\<close> and \<^verbatim>\<open>assignee\<close> in \<^verbatim>\<open>list_work_packages\<close> (lines
  239-247); \<^verbatim>\<open>status\<close>, \<^verbatim>\<open>wp_type\<close>, \<^verbatim>\<open>priority\<close>, \<^verbatim>\<open>assignee\<close> and \<^verbatim>\<open>project\<close> in
  \<^verbatim>\<open>get_work_package\<close> (lines 272-287).
\<close>

definition list_status_name :: "pyval \<Rightarrow> py_error + pyval" where
  "list_status_name wp = embedded_name wp ''status'' ''Unknown''"

definition list_wp_type :: "pyval \<Rightarrow> py_error + pyval" where
  "list_wp_type wp = embedded_name wp ''type'' ''N/A''"

definition list_assignee :: "pyval \<Rightarrow> py_error + pyval option" where
  "list_assignee wp = optional_embedded_name wp ''assignee'' ''N/A''"






text \<open>\<^verbatim>\<open>list_work_packages\<close> (lines 194-255): the loop body, the rendering and the tool.\<close>

definition work_package_entry :: "pyval \<Rightarrow> py_error + message" where
  "work_package_entry wp =
     bind_err (list_status_name wp) (\<lambda>status_name.
     bind_err (py_index wp ''id'') (\<lambda>wid.
     bind_err (py_index wp ''subject'') (\<lambda>subject.
     bind_err (list_wp_type wp) (\<lambda>wp_type.
     bind_err (list_assignee wp) (\<lambda>assignee.
     Inr ([Lit ''#'', Val wid, Lit '' - **'', Val subject, Lit ''**\<newline>'',
           Lit ''   Status: '', Val status_name, Lit ''\<newline>'',
           Lit ''   Type: '', Val wp_type, Lit ''\<newline>'']
          @ optional_line ''   Assignee: '' assignee
          @ [Lit ''\<newline>'']))))))"

definition render_work_packages :: "pyval \<Rightarrow> py_error + message" where
  "render_work_packages result =
     bind_err (py_get result ''_embedded'' (PDict [])) (\<lambda>e.
     bind_err (py_get e ''elements'' (PList [])) (\<lambda>work_packages.
     if \<not> truthy work_packages then Inr [Lit ''No work packages found.'']
     else
       bind_err (py_len work_packages) (\<lambda>n.
       bind_err (py_get result ''total'' (PInt n)) (\<lambda>total.
       bind_err (py_iter work_packages) (\<lambda>items.
       bind_err (render_each work_package_entry items) (\<lambda>entries.
       Inr ([Sym 0x1F4DD, Lit '' Work Packages ('', Val (PInt n), Lit '' of '', Val total,
             Lit ''):\<newline>\<newline>''] @ entries)))))))"

definition list_work_packages ::
  "env \<Rightarrow> remote \<Rightarrow> server_state \<Rightarrow> int option \<Rightarrow> string \<Rightarrow> int option \<Rightarrow> int option
     \<Rightarrow> message \<times> server_state" where
  "list_work_packages env rem st project_id status offset page_size =
     run_tool env rem st (\<lambda>st1.
       then_render (call_client rem (list_work_packages_request project_id status offset page_size) st1)
         render_work_packages)"



text \<open>\<^verbatim>\<open>list_time_entry_activities\<close> (lines 794-819).\<close>

definition activity_entry :: "pyval \<Rightarrow> py_error + message" where
  "activity_entry activity =
     bind_err (py_index activity ''name'') (\<lambda>name.
     bind_err (py_index activity ''id'') (\<lambda>aid.
     bind_err (py_get activity ''default'' PNone) (\<lambda>dflt.
     Inr ([Lit ''- **'', Val name, Lit ''** (ID: '', Val aid, Lit '')\<newline>'']
          @ (if truthy dflt then [Lit ''  '', Sym 0x2B50, Lit '' Default activity\<newline>''] else [])))))"

definition render_time_entry_activities :: "pyval \<Rightarrow> py_error + message" where
  "render_time_entry_activities result =
     bind_err (py_get result ''_embedded'' (PDict [])) (\<lambda>e.
     bind_err (py_get e ''elements'' PNone) (\<lambda>elements.
     if \<not> truthy elements then Inr [Lit ''No time entry activities found'']
     else
       bind_err (py_index result ''total'') (\<lambda>total.
       bind_err (py_index result ''_embedded'') (\<lambda>e2.
       bind_err (py_index e2 ''elements'') (\<lambda>elements2.
       bind_err (py_iter elements2) (\<lambda>items.
       bind_err (render_each activity_entry items) (\<lambda>entries.
       Inr ([Sym 0x23F1, Sym 0xFE0F, Lit '' **Time Entry Activities** (Total: '', Val total,
             Lit '')\<newline>\<newline>''] @ entries))))))))"

definition list_time_entry_activities :: "env \<Rightarrow> remote \<Rightarrow> server_state \<Rightarrow> message \<times> server_state" where
  "list_time_entry_activities env rem st =
     run_tool env rem st (\<lambda>st1.
       then_render (call_client rem GetTimeEntryActivities st1) render_time_entry_activities)"

section \<open>Creating and updating\<close>

text \<open>
  The payload of each tool is built as the source builds it: a dictionary literal, then one
  conditional assignment per optional argument. The create tools test the argument itself
  (\<^verbatim>\<open>if description:\<close>), the update tools test \<^verbatim>\<open>is not None\<close>.
\<close>

definition set_if :: "bool \<Rightarrow> (string \<times> pyval) list \<Rightarrow> string \<Rightarrow> pyval \<Rightarrow> (string \<times> pyval) list" where
  "set_if cond data k v = (if cond then dict_set data k v else data)"

text \<open>\<^verbatim>\<open>create_work_package\<close> (lines 299-338).\<close>

definition create_work_package_data ::
  "int \<Rightarrow> string \<Rightarrow> int \<Rightarrow> string option \<Rightarrow> int option \<Rightarrow> int option \<Rightarrow> (string \<times> pyval) list" where
  "create_work_package_data project_id subject type_id description priority_id assignee_id =
     (let data = [(''project'', PInt project_id), (''subject'', PStr subject), (''type'', PInt type_id)];
          data = set_if (truthy (opt_str description)) data ''description'' (opt_str description);
          data = set_if (truthy (opt_int priority_id)) data ''priority_id'' (opt_int priority_id);
          data = set_if (truthy (opt_int assignee_id)) data ''assignee_id'' (opt_int assignee_id)
      in data)"

definition created_work_package_text :: "string \<Rightarrow> pyval \<Rightarrow> py_error + message" where
  "created_work_package_text verb wp =
     bind_err (py_index wp ''id'') (\<lambda>wid.
     bind_err (py_index wp ''subject'') (\<lambda>subject.
     Inr [Sym 0x2705, Lit ('' Work package '' @ verb @ '': #''), Val wid, Lit '' - **'', Val subject, Lit ''**'']))"

definition create_work_package ::
  "env \<Rightarrow> remote \<Rightarrow> server_state \<Rightarrow> int \<Rightarrow> string \<Rightarrow> int \<Rightarrow> string option \<Rightarrow> int option \<Rightarrow> int option
     \<Rightarrow> message \<times> server_state" where
  "create_work_package env rem st project_id subject type_id description priority_id assignee_id =
     run_tool env rem st (\<lambda>st1.
       then_render
         (call_client rem
            (CreateWorkPackage
               (PDict (create_work_package_data project_id subject type_id description priority_id assignee_id)))
            st1)
         (created_work_package_text ''created''))"

text \<open>\<^verbatim>\<open>update_work_package\<close> (lines 341-387).\<close>

definition update_work_package_data ::
  "string option \<Rightarrow> string option \<Rightarrow> int option \<Rightarrow> int option \<Rightarrow> int option \<Rightarrow> int option \<Rightarrow> int option
     \<Rightarrow> (string \<times> pyval) list" where
  "update_work_package_data subject description type_id status_id priority_id assignee_id percentage_done =
     (let data = [];
          data = set_if (is_not_none (opt_str subject)) data ''subject'' (opt_str subject);
          data = set_if (is_not_none (opt_str description)) data ''description'' (opt_str description);
          data = set_if (is_not_none (opt_int type_id)) data ''type_id'' (opt_int type_id);
          data = set_if (is_not_none (opt_int status_id)) data ''status_id'' (opt_int status_id);
          data = set_if (is_not_none (opt_int priority_id)) data ''priority_id'' (opt_int priority_id);
          data = set_if (is_not_none (opt_int assignee_id)) data ''assignee_id'' (opt_int assignee_id);
          data = set_if (is_not_none (opt_int percentage_done)) data ''percentage_done'' (opt_int percentage_done)
      in data)"

definition update_work_package ::
  "env \<Rightarrow> remote \<Rightarrow> server_state \<Rightarrow> int \<Rightarrow> string option \<Rightarrow> string option \<Rightarrow> int option \<Rightarrow> int option
     \<Rightarrow> int option \<Rightarrow> int option \<Rightarrow> int option \<Rightarrow> message \<times> server_state" where
  "update_work_package env rem st work_package_id subject description type_id status_id priority_id
       assignee_id percentage_done =
     run_tool env rem st (\<lambda>st1.
       then_render
         (call_client rem
            (UpdateWorkPackage work_package_id
               (PDict (update_work_package_data subject description type_id status_id priority_id
                         assignee_id percentage_done)))
            st1)
         (created_work_package_text ''updated''))"

text \<open>\<^verbatim>\<open>create_project\<close> (lines 148-186) and \<^verbatim>\<open>update_project\<close> (lines 541-583).\<close>

definition create_project_data ::
  "string \<Rightarrow> string \<Rightarrow> string option \<Rightarrow> bool \<Rightarrow> string option \<Rightarrow> int option \<Rightarrow> (string \<times> pyval) list" where
  "create_project_data name identifier description public status parent_id =
     (let data = [(''name'', PStr name), (''identifier'', PStr identifier), (''public'', PBool public)];
          data = set_if (truthy (opt_str description)) data ''description'' (opt_str description);
          data = set_if (truthy (opt_str status)) data ''status'' (opt_str status);
          data = set_if (truthy (opt_int parent_id)) data ''parent_id'' (opt_int parent_id)
      in data)"

definition created_project_text :: "string \<Rightarrow> pyval \<Rightarrow> py_error + message" where
  "created_project_text verb project =
     bind_err (py_index project ''name'') (\<lambda>name.
     bind_err (py_index project ''id'') (\<lambda>pid.
     Inr [Sym 0x2705, Lit ('' Project '' @ verb @ '': **''), Val name, Lit ''** (ID: '', Val pid, Lit '')'']))"

definition create_project ::
  "env \<Rightarrow> remote \<Rightarrow> server_state \<Rightarrow> string \<Rightarrow> string \<Rightarrow> string option \<Rightarrow> bool \<Rightarrow> string option \<Rightarrow> int option
     \<Rightarrow> message \<times> server_state" where
  "create_project env rem st name identifier description public status parent_id =
     run_tool env rem st (\<lambda>st1.
       then_render
         (call_client rem
            (CreateProject (PDict (create_project_data name identifier description public status parent_id)))
            st1)
         (created_project_text ''created''))"

definition update_project_data ::
  "string option \<Rightarrow> string option \<Rightarrow> string option \<Rightarrow> bool option \<Rightarrow> string option \<Rightarrow> int option
     \<Rightarrow> (string \<times> pyval) list" where
  "update_project_data name identifier description public status parent_id =
     (let data = [];
          data = set_if (is_not_none (opt_str name)) data ''name'' (opt_str name);
          data = set_if (is_not_none (opt_str identifier)) data ''identifier'' (opt_str identifier);
          data = set_if (is_not_none (opt_str description)) data ''description'' (opt_str description);
          data = set_if (is_not_none (opt_bool public)) data ''public'' (opt_bool public);
          data = set_if (is_not_none (opt_str status)) data ''status'' (opt_str status);
          data = set_if (is_not_none (opt_int parent_id)) data ''parent_id'' (opt_int parent_id)
      in data)"

definition update_project ::
  "env \<Rightarrow> remote \<Rightarrow> server_state \<Rightarrow> int \<Rightarrow> string option \<Rightarrow> string option \<Rightarrow> string option \<Rightarrow> bool option
     \<Rightarrow> string option \<Rightarrow> int option \<Rightarrow> message \<times> server_state" where
  "update_project env rem st project_id name identifier description public status parent_id =
     run_tool env rem st (\<lambda>st1.
       then_render
         (call_client rem
            (UpdateProject project_id
               (PDict (update_project_data name identifier description public status parent_id)))
            st1)
         (created_project_text ''updated''))"

text \<open>
  \<^verbatim>\<open>create_time_entry\<close> (lines 864-898). \<open>hours\<close> is a float, given by its \<^verbatim>\<open>repr\<close>.
\<close>

definition create_time_entry_data ::
  "int \<Rightarrow> string \<Rightarrow> string \<Rightarrow> string option \<Rightarrow> int option \<Rightarrow> (string \<times> pyval) list" where
  "create_time_entry_data work_package_id hours spent_on comment activity_id =
     (let data = [(''work_package_id'', PInt work_package_id), (''hours'', PFloat hours),
                  (''spent_on'', PStr spent_on)];
          data = set_if (truthy (opt_str comment)) data ''comment'' (opt_str comment);
          data = set_if (truthy (opt_int activity_id)) data ''activity_id'' (opt_int activity_id)
      in data)"

definition create_time_entry ::
  "env \<Rightarrow> remote \<Rightarrow> server_state \<Rightarrow> int \<Rightarrow> string \<Rightarrow> string \<Rightarrow> string option \<Rightarrow> int option
     \<Rightarrow> message \<times> server_state" where
  "create_time_entry env rem st work_package_id hours spent_on comment activity_id =
     run_tool env rem st (\<lambda>st1.
       then_render
         (call_client rem
            (CreateTimeEntry (PDict (create_time_entry_data work_package_id hours spent_on comment activity_id)))
            st1)
         (\<lambda>r. Inr [Sym 0x2705, Lit '' Time entry created: '', Val (PFloat hours), Lit ''h on '',
                    Val (PStr spent_on)]))"

section \<open>Memberships and relations\<close>

text \<open>
  \<^verbatim>\<open>create_membership\<close> (lines 639-676). The \<^verbatim>\<open>else\<close> branch returns its own message from
  inside the \<^verbatim>\<open>try\<close> block, before any method of the client is called.
\<close>

definition membership_principal :: "int \<Rightarrow> int option \<Rightarrow> int option \<Rightarrow> (string \<times> pyval) list option" where
  "membership_principal project_id user_id group_id =
     (let data = [(''project_id'', PInt project_id)] in
      if truthy (opt_int user_id) then Some (dict_set data ''user_id'' (opt_int user_id))
      else if truthy (opt_int group_id) then Some (dict_set data ''group_id'' (opt_int group_id))
      else None)"

definition membership_roles ::
  "(string \<times> pyval) list \<Rightarrow> int list option \<Rightarrow> int option \<Rightarrow> (string \<times> pyval) list" where
  "membership_roles data role_ids role_id =
     (if truthy (opt_int_list role_ids) then dict_set data ''role_ids'' (opt_int_list role_ids)
      else if truthy (opt_int role_id) then dict_set data ''role_id'' (opt_int role_id)
      else data)"

definition membership_refused :: message where
  "membership_refused = [Sym 0x274C, Lit '' Error: Either user_id or group_id must be provided'']"

definition create_membership ::
  "env \<Rightarrow> remote \<Rightarrow> server_state \<Rightarrow> int \<Rightarrow> int option \<Rightarrow> int option \<Rightarrow> int list option \<Rightarrow> int option
     \<Rightarrow> message \<times> server_state" where
  "create_membership env rem st project_id user_id group_id role_ids role_id =
     run_tool env rem st (\<lambda>st1.
       case membership_principal project_id user_id group_id of
         None \<Rightarrow> (Inr membership_refused, st1)
       | Some data \<Rightarrow>
           then_render (call_client rem (CreateMembership (PDict (membership_roles data role_ids role_id))) st1)
             (\<lambda>r. Inr [Sym 0x2705, Lit '' Membership created successfully'']))"

text \<open>\<^verbatim>\<open>create_work_package_relation\<close> (lines 1089-1123).\<close>

definition create_work_package_relation_data ::
  "int \<Rightarrow> int \<Rightarrow> string \<Rightarrow> int option \<Rightarrow> string option \<Rightarrow> (string \<times> pyval) list" where
  "create_work_package_relation_data from_id to_id relation_type lag description =
     (let data = [(''from_id'', PInt from_id), (''to_id'', PInt to_id),
                  (''relation_type'', PStr relation_type)];
          data = set_if (is_not_none (opt_int lag)) data ''lag'' (opt_int lag);
          data = set_if (truthy (opt_str description)) data ''description'' (opt_str description)
      in data)"

definition create_work_package_relation ::
  "env \<Rightarrow> remote \<Rightarrow> server_state \<Rightarrow> int \<Rightarrow> int \<Rightarrow> string \<Rightarrow> int option \<Rightarrow> string option
     \<Rightarrow> message \<times> server_state" where
  "create_work_package_relation env rem st from_id to_id relation_type lag description =
     run_tool env rem st (\<lambda>st1.
       then_render
         (call_client rem
            (CreateWorkPackageRelation
               (PDict (create_work_package_relation_data from_id to_id relation_type lag description)))
            st1)
         (\<lambda>r. Inr [Sym 0x2705, Lit '' Relation created: #'', Val (PInt from_id), Lit '' '',
                    Val (PStr relation_type), Lit '' #'', Val (PInt to_id)]))"

section \<open>Hierarchy traversal\<close>

text \<open>
  Modelled from the spec: the work items of the remote service. The method
  \<^verbatim>\<open>OpenProjectClient.list_work_package_children\<close>, which \<^verbatim>\<open>list_work_package_children\<close> of
  server.py calls, is not part of server.py, so the traversal below follows sections 3, 4.5
  and 9 of the specification. A work item has an id and a subject and refers to at most one
  parent by id; the service holds a list of them.
\<close>

record work_item =
  wi_id :: int
  wi_subject :: string
  wi_parent :: "int option"

type_synonym hierarchy = "work_item list"

text \<open>
  Modelled from the spec: the single filtered list call for the work items whose parent
  equals \<open>p\<close> (section 4.5).
\<close>

definition fetch_children :: "hierarchy \<Rightarrow> int \<Rightarrow> work_item list" where
  "fetch_children h p = filter (\<lambda>w. wi_parent w = Some p) h"

text \<open>
  Modelled from the spec: the guard of the traversal, "tracking visited ids and refusing to
  revisit one". Of the fetched children, those whose id has not been seen are kept, each
  id once.
\<close>

fun admit :: "int list \<Rightarrow> work_item list \<Rightarrow> work_item list" where
  "admit seen [] = []"
| "admit seen (w # ws) =
     (if wi_id w \<in> set seen then admit seen ws else w # admit (wi_id w # seen) ws)"

lemma admit_ids: "set (map wi_id (admit seen ws)) = set (map wi_id ws) - set seen"
  by (induction ws arbitrary: seen) auto

lemma admit_distinct: "distinct (map wi_id (admit seen ws))"
proof (induction ws arbitrary: seen)
  case Nil
  show ?case by simp
next
  case (Cons w ws)
  have "wi_id w \<notin> set (map wi_id (admit (wi_id w # seen) ws))"
    unfolding admit_ids by simp
  with Cons show ?case by simp
qed

lemma admit_subset: "set (admit seen ws) \<subseteq> set ws"
  by (induction ws arbitrary: seen) auto

text \<open>
  Modelled from the spec: the worklist of section 9, "arena of pending ids + a set of seen
  ids". The children of the first pending id are fetched; the new ones are appended to the
  result and become pending themselves. Every round either marks a new id of the service
  as seen or shortens the worklist, so the traversal ends on every hierarchy, cyclic or not.
\<close>

function expand :: "hierarchy \<Rightarrow> int list \<Rightarrow> int list \<Rightarrow> work_item list \<Rightarrow> work_item list" where
  "expand h [] seen acc = acc"
| "expand h (p # pending) seen acc =
     (let fresh = admit seen (fetch_children h p)
      in expand h (pending @ map wi_id fresh) (seen @ map wi_id fresh) (acc @ fresh))"
  by pat_completeness auto
termination
proof (relation "measures [\<lambda>(h, pending, seen, acc). card (set (map wi_id h) - set seen),
                           \<lambda>(h, pending, seen, acc). length pending]", goal_cases)
  case 1
  show ?case by simp
next
  case (2 h p pending seen acc fresh)
  show ?case
  proof (cases "fresh = []")
    case True
    then show ?thesis by simp
  next
    case False
    have sub: "set (map wi_id fresh) \<subseteq> set (map wi_id h) - set seen"
      using 2 admit_ids [of seen "fetch_children h p"] by (auto simp: fetch_children_def)
    from False obtain w where w: "w \<in> set fresh" by (cases fresh) auto
    with sub have "wi_id w \<in> set (map wi_id h) - set seen" by auto
    moreover from w have "wi_id w \<notin> set (map wi_id h) - set (seen @ map wi_id fresh)" by simp
    ultimately
    have "set (map wi_id h) - set (seen @ map wi_id fresh) \<subset> set (map wi_id h) - set seen"
      by auto
    then have "card (set (map wi_id h) - set (seen @ map wi_id fresh)) < card (set (map wi_id h) - set seen)"
      by (intro psubset_card_mono) auto
    then show ?thesis by simp
  qed
qed

text \<open>
  Modelled from the spec: \<^verbatim>\<open>children(parent_id, include_descendants)\<close> of section 4.5.
\<close>

definition children :: "hierarchy \<Rightarrow> int \<Rightarrow> bool \<Rightarrow> work_item list" where
  "children h parent_id include_descendants =
     (if include_descendants then expand h [parent_id] [parent_id] []
      else fetch_children h parent_id)"

text \<open>
  Modelled from the spec: the response of the client's \<^verbatim>\<open>list_work_package_children\<close>, a
  collection envelope (section 3) with the work items found under \<^verbatim>\<open>_embedded.elements\<close>,
  and the remote side that answers the request of the tool with it.
\<close>

definition work_item_json :: "work_item \<Rightarrow> pyval" where
  "work_item_json w = PDict [(''id'', PInt (wi_id w)), (''subject'', PStr (wi_subject w))]"

definition collection :: "pyval list \<Rightarrow> pyval" where
  "collection xs = PDict [(''total'', PInt (int (length xs))), (''_embedded'', PDict [(''elements'', PList xs)])]"

definition service :: "hierarchy \<Rightarrow> remote" where
  "service h history req =
     (case req of
        ListWorkPackageChildren parent_id include_descendants \<Rightarrow>
          Inr (collection (map work_item_json (children h parent_id include_descendants)))
      | _ \<Rightarrow> Inl (ClientError ''not a hierarchy request''))"

text \<open>
  The parent/child relation of a hierarchy, the direct children of a work item and its
  transitive descendants: what the traversal is measured against.
\<close>

definition child_rel :: "hierarchy \<Rightarrow> (int \<times> int) set" where
  "child_rel h = {(p, c). \<exists>w \<in> set h. wi_id w = c \<and> wi_parent w = Some p}"

definition direct_children :: "hierarchy \<Rightarrow> int \<Rightarrow> int set" where
  "direct_children h p = {c. (p, c) \<in> child_rel h}"

definition descendants :: "hierarchy \<Rightarrow> int \<Rightarrow> int set" where
  "descendants h p = {c. (p, c) \<in> (child_rel h)\<^sup>+}"

text \<open>\<^verbatim>\<open>list_work_package_children\<close> of server.py (lines 1058-1086).\<close>

definition child_entry :: "pyval \<Rightarrow> py_error + message" where
  "child_entry wp =
     bind_err (py_index wp ''id'') (\<lambda>wid.
     bind_err (py_index wp ''subject'') (\<lambda>subject.
     Inr [Lit ''#'', Val wid, Lit '' - **'', Val subject, Lit ''**\<newline>'']))"

definition render_children :: "int \<Rightarrow> pyval \<Rightarrow> py_error + message" where
  "render_children parent_id result =
     bind_err (py_get result ''_embedded'' (PDict [])) (\<lambda>e.
     bind_err (py_get e ''elements'' (PList [])) (\<lambda>children.
     if \<not> truthy children
     then Inr [Lit ''No children found for work package #'', Val (PInt parent_id), Lit ''.'']
     else
       bind_err (py_len children) (\<lambda>n.
       bind_err (py_iter children) (\<lambda>items.
       bind_err (render_each child_entry items) (\<lambda>entries.
       Inr ([Sym 0x1F476, Lit '' Children of #'', Val (PInt parent_id), Lit '' ('', Val (PInt n),
             Lit '' found):\<newline>\<newline>''] @ entries))))))"

definition list_work_package_children ::
  "env \<Rightarrow> remote \<Rightarrow> server_state \<Rightarrow> int \<Rightarrow> bool \<Rightarrow> message \<times> server_state" where
  "list_work_package_children env rem st parent_id include_descendants =
     run_tool env rem st (\<lambda>st1.
       then_render (call_client rem (ListWorkPackageChildren parent_id include_descendants) st1)
         (render_children parent_id))"

text \<open>The text that lists the work items \<open>ws\<close> as the children of \<open>parent_id\<close>.\<close>

definition children_text :: "int \<Rightarrow> work_item list \<Rightarrow> message" where
  "children_text parent_id ws =
     (if ws = [] then [Lit ''No children found for work package #'', Val (PInt parent_id), Lit ''.'']
      else [Sym 0x1F476, Lit '' Children of #'', Val (PInt parent_id), Lit '' ('',
            Val (PInt (int (length ws))), Lit '' found):\<newline>\<newline>'']
           @ concat (map (\<lambda>w. [Lit ''#'', Val (PInt (wi_id w)), Lit '' - **'', Val (PStr (wi_subject w)),
                                 Lit ''**\<newline>'']) ws))"

text \<open>The tree of the specification's example: root 1 with children A = 2 and B = 3, and C = 4 under A.\<close>

definition example_tree :: hierarchy where
  "example_tree =
     [\<lparr>wi_id = 1, wi_subject = ''root'', wi_parent = None\<rparr>,
      \<lparr>wi_id = 2, wi_subject = ''A'', wi_parent = Some 1\<rparr>,
      \<lparr>wi_id = 3, wi_subject = ''B'', wi_parent = Some 1\<rparr>,
      \<lparr>wi_id = 4, wi_subject = ''C'', wi_parent = Some 2\<rparr>]"

section \<open>Configuration errors\<close>

lemma truthy_opt_str: "truthy (opt_str v) = (\<exists>s. v = Some s \<and> s \<noteq> [])"
  by (cases v) auto

text \<open>
  C7. At first use (no client yet), when the base URL or the API key is absent (or empty,
  which \<^verbatim>\<open>not base_url\<close> treats alike), \<^verbatim>\<open>get_client\<close> raises the configuration error
  and leaves the state as it was: no request has been made and no client constructed.
  And whenever it does return a handle at first use, that handle holds the non-empty
  base URL and API key of the environment.
\<close>

theorem get_client_configuration_error:
  assumes "client st = None"
  shows "(env ''OPENPROJECT_URL'' \<in> {None, Some []} \<or> env ''OPENPROJECT_API_KEY'' \<in> {None, Some []}
            \<longrightarrow> get_client env rem st =
                  (Inl (ValueError ''OPENPROJECT_URL and OPENPROJECT_API_KEY must be set''), st))
       \<and> (\<forall>c st'. get_client env rem st = (Inr c, st')
            \<longrightarrow> env ''OPENPROJECT_URL'' = Some (base_url c) \<and> base_url c \<noteq> []
              \<and> env ''OPENPROJECT_API_KEY'' = Some (api_key c) \<and> api_key c \<noteq> []
              \<and> client st' = Some c)"
proof -
  have first: "get_client env rem st =
      (Inl (ValueError ''OPENPROJECT_URL and OPENPROJECT_API_KEY must be set''), st)"
    if "env ''OPENPROJECT_URL'' \<in> {None, Some []} \<or> env ''OPENPROJECT_API_KEY'' \<in> {None, Some []}"
  proof -
    from that
    have "\<not> truthy (opt_str (env ''OPENPROJECT_URL'')) \<or> \<not> truthy (opt_str (env ''OPENPROJECT_API_KEY''))"
      by (auto simp: truthy_opt_str)
    then show ?thesis
      using assms by (auto simp: get_client_def Let_def)
  qed
  have second: "env ''OPENPROJECT_URL'' = Some (base_url c) \<and> base_url c \<noteq> []
      \<and> env ''OPENPROJECT_API_KEY'' = Some (api_key c) \<and> api_key c \<noteq> []
      \<and> client st' = Some c"
    if g: "get_client env rem st = (Inr c, st')" for c st'
  proof -
    from g obtain u k where u: "env ''OPENPROJECT_URL'' = Some u" "u \<noteq> []"
      and k: "env ''OPENPROJECT_API_KEY'' = Some k" "k \<noteq> []"
      using assms by (auto simp: get_client_def Let_def truthy_opt_str split: if_splits)
    from g u k assms
    have c: "c = \<lparr>base_url = u, api_key = k, proxy = env ''OPENPROJECT_PROXY''\<rparr>"
      and st': "client st' = Some c"
      by (auto simp: get_client_def Let_def call_client_def split: if_splits)
    from c u k st' show ?thesis
      by simp
  qed
  from first second show ?thesis
    by blast
qed

theorem get_client_configuration_error_witness:
  "get_client (\<lambda>k. if k = ''OPENPROJECT_URL'' then Some ''https://op.example'' else None)
      (\<lambda>h r. Inr PNone) initial_state =
     (Inl (ValueError ''OPENPROJECT_URL and OPENPROJECT_API_KEY must be set''), initial_state)"
  using get_client_configuration_error
    [of initial_state "\<lambda>k. if k = ''OPENPROJECT_URL'' then Some ''https://op.example'' else None"
        "\<lambda>h r. Inr PNone"]
  by (simp add: initial_state_def)

section \<open>The frame of a tool\<close>

lemma run_tool_call:
  assumes "get_client env rem st = (Inr c, st1)"
  shows "run_tool env rem st (\<lambda>s. then_render (call_client rem req s) f) =
     ((case bind_err (rem (sent st1) req) f of Inl e \<Rightarrow> error_text e | Inr t \<Rightarrow> t),
      st1\<lparr>sent := sent st1 @ [req]\<rparr>)"
  using assms by (simp add: run_tool_def then_render_def call_client_def split: sum.splits)

lemma run_tool_no_client:
  assumes "get_client env rem st = (Inl e, st1)"
  shows "run_tool env rem st body = (error_text e, st1)"
  using assms by (simp add: run_tool_def)

lemma get_client_present: "client st = Some c \<Longrightarrow> get_client env rem st = (Inr c, st)"
  by (simp add: get_client_def)

lemma get_client_sent:
  "sent (snd (get_client env rem st)) = sent st
   \<or> sent (snd (get_client env rem st)) = sent st @ [TestConnection]"
  by (simp add: get_client_def Let_def call_client_def split: option.splits)

section \<open>Filter construction\<close>

lemma join_nonempty: "x \<noteq> [] \<Longrightarrow> join sep (x # xs) \<noteq> []"
  by (cases xs) auto

lemma json_dumps_predicate_nonempty: "json_dumps (predicate f operator vs) \<noteq> []"
  by (simp add: predicate_def)

lemma dumps_or_none_not_empty_array:
  "fs = [] \<or> json_dumps (hd fs) \<noteq> [] \<Longrightarrow> dumps_or_none fs \<noteq> Some ''[]''"
proof (cases fs)
  case Nil
  then show ?thesis by (simp add: dumps_or_none_def)
next
  case (Cons f fs')
  assume "fs = [] \<or> json_dumps (hd fs) \<noteq> []"
  with Cons have "json_dumps f \<noteq> []" by simp
  then have "join '', '' (json_dumps f # map json_dumps fs') \<noteq> []"
    by (rule join_nonempty)
  with Cons show ?thesis
    by (simp add: dumps_or_none_def)
qed

lemma list_work_packages_filters_all:
  "list_work_packages_request project_id ''all'' offset page_size =
     GetWorkPackages project_id None offset page_size"
  by (simp add: list_work_packages_request_def list_work_packages_filters_def dumps_or_none_def)

text \<open>
  C2. The filter list that \<^verbatim>\<open>list_work_packages\<close> builds is determined by the status
  argument: for "open" it is the one-element array with the status predicate of operator
  "o" and no values, for "closed" the same with operator "c", and the request carries its
  \<^verbatim>\<open>json.dumps\<close> text; for "all" the list is empty and the \<^verbatim>\<open>filters\<close> argument of the
  request is \<^verbatim>\<open>None\<close>. Once the client is available, the tool \<^verbatim>\<open>list_work_packages\<close>
  itself makes exactly that request: the one call of the client's \<^verbatim>\<open>get_work_packages\<close>
  carries the text for "open" and "closed", and \<^verbatim>\<open>filters=None\<close> for "all".
\<close>

theorem list_work_packages_status_filter: \<open>
  list_work_packages_filters ''open'' =
      [PDict [(''status'', PDict [(''operator'', PStr ''o''), (''values'', PList [])])]]
  \<and> list_work_packages_request project_id ''open'' offset page_size =
      GetWorkPackages project_id (Some ''[{"status": {"operator": "o", "values": []}}]'') offset page_size
  \<and> list_work_packages_filters ''closed'' =
      [PDict [(''status'', PDict [(''operator'', PStr ''c''), (''values'', PList [])])]]
  \<and> list_work_packages_request project_id ''closed'' offset page_size =
      GetWorkPackages project_id (Some ''[{"status": {"operator": "c", "values": []}}]'') offset page_size
  \<and> list_work_packages_filters ''all'' = []
  \<and> list_work_packages_request project_id ''all'' offset page_size =
      GetWorkPackages project_id None offset page_size
  \<and> (get_client env rem st = (Inr c, st1) \<longrightarrow>
       snd (list_work_packages env rem st project_id ''open'' offset page_size) =
         st1\<lparr>sent := sent st1 @
           [GetWorkPackages project_id (Some ''[{"status": {"operator": "o", "values": []}}]'')
              offset page_size]\<rparr>
     \<and> snd (list_work_packages env rem st project_id ''closed'' offset page_size) =
         st1\<lparr>sent := sent st1 @
           [GetWorkPackages project_id (Some ''[{"status": {"operator": "c", "values": []}}]'')
              offset page_size]\<rparr>
     \<and> snd (list_work_packages env rem st project_id ''all'' offset page_size) =
         st1\<lparr>sent := sent st1 @ [GetWorkPackages project_id None offset page_size]\<rparr>)\<close>
proof -
  have built: \<open>
    list_work_packages_filters ''open'' =
        [PDict [(''status'', PDict [(''operator'', PStr ''o''), (''values'', PList [])])]]
    \<and> list_work_packages_request project_id ''open'' offset page_size =
        GetWorkPackages project_id (Some ''[{"status": {"operator": "o", "values": []}}]'') offset page_size
    \<and> list_work_packages_filters ''closed'' =
        [PDict [(''status'', PDict [(''operator'', PStr ''c''), (''values'', PList [])])]]
    \<and> list_work_packages_request project_id ''closed'' offset page_size =
        GetWorkPackages project_id (Some ''[{"status": {"operator": "c", "values": []}}]'') offset page_size
    \<and> list_work_packages_filters ''all'' = []
    \<and> list_work_packages_request project_id ''all'' offset page_size =
        GetWorkPackages project_id None offset page_size\<close>
    by (simp add: list_work_packages_filters_def list_work_packages_request_def dumps_or_none_def
          predicate_def json_string_def json_escape_char_def)
  have tool: "snd (list_work_packages env rem st project_id status offset page_size) =
      st1\<lparr>sent := sent st1 @ [list_work_packages_request project_id status offset page_size]\<rparr>"
    if "get_client env rem st = (Inr c, st1)" for status
    unfolding list_work_packages_def by (simp add: run_tool_call [OF that])
  from built tool [of "''open''"] tool [of "''closed''"] tool [of "''all''"] show ?thesis
    by simp
qed

theorem list_work_packages_status_filter_witness: \<open>
  list_work_packages_request (Some 7) ''open'' None (Some 20) =
      GetWorkPackages (Some 7) (Some ''[{"status": {"operator": "o", "values": []}}]'') None (Some 20)
  \<and> list_work_packages_request (Some 7) ''all'' None (Some 20) =
      GetWorkPackages (Some 7) None None (Some 20)
  \<and> snd (list_work_packages (\<lambda>k. None) (\<lambda>h r. Inr PNone)
         \<lparr>client = Some \<lparr>base_url = ''https://op.example'', api_key = ''k'', proxy = None\<rparr>, sent = []\<rparr>
         (Some 7) ''open'' None (Some 20)) =
      \<lparr>client = Some \<lparr>base_url = ''https://op.example'', api_key = ''k'', proxy = None\<rparr>,
       sent = [GetWorkPackages (Some 7) (Some ''[{"status": {"operator": "o", "values": []}}]'')
                 None (Some 20)]\<rparr>
  \<and> snd (list_work_packages (\<lambda>k. None) (\<lambda>h r. Inr PNone)
         \<lparr>client = Some \<lparr>base_url = ''https://op.example'', api_key = ''k'', proxy = None\<rparr>, sent = []\<rparr>
         (Some 7) ''closed'' None (Some 20)) =
      \<lparr>client = Some \<lparr>base_url = ''https://op.example'', api_key = ''k'', proxy = None\<rparr>,
       sent = [GetWorkPackages (Some 7) (Some ''[{"status": {"operator": "c", "values": []}}]'')
                 None (Some 20)]\<rparr>
  \<and> snd (list_work_packages (\<lambda>k. None) (\<lambda>h r. Inr PNone)
         \<lparr>client = Some \<lparr>base_url = ''https://op.example'', api_key = ''k'', proxy = None\<rparr>, sent = []\<rparr>
         (Some 7) ''all'' None (Some 20)) =
      \<lparr>client = Some \<lparr>base_url = ''https://op.example'', api_key = ''k'', proxy = None\<rparr>,
       sent = [GetWorkPackages (Some 7) None None (Some 20)]\<rparr>\<close>
proof -
  let ?c = "\<lparr>base_url = ''https://op.example'', api_key = ''k'', proxy = None\<rparr>"
  let ?st = "\<lparr>client = Some ?c, sent = []\<rparr>"
  have g: "get_client (\<lambda>k. None) (\<lambda>h r. Inr PNone) ?st = (Inr ?c, ?st)"
    by (simp add: get_client_def)
  from g list_work_packages_status_filter
    [where project_id = "Some 7" and offset = None and page_size = "Some 20"
       and env = "\<lambda>k. None" and rem = "\<lambda>h r. Inr PNone" and st = ?st and c = ?c and ?st1.0 = ?st]
  show ?thesis
    by simp
qed

text \<open>
  C3. When no predicate applies (status "all", \<^verbatim>\<open>active_only=False\<close>, or every optional
  filter argument unset), each of the five list tools passes \<^verbatim>\<open>filters=None\<close> to the
  client; and whatever the arguments, none of them ever passes the text \<^verbatim>\<open>[]\<close>.
\<close>

theorem filters_omitted_without_predicate:
  "list_work_packages_request project_id ''all'' offset page_size =
      GetWorkPackages project_id None offset page_size
   \<and> list_projects_request False = GetProjects None
   \<and> list_users_request False = GetUsers None
   \<and> list_time_entries_request None None = GetTimeEntries None
   \<and> list_work_package_relations_request None None = ListWorkPackageRelations None
   \<and> list_work_packages_request project_id status offset page_size \<noteq>
      GetWorkPackages project_id (Some ''[]'') offset page_size
   \<and> list_projects_request active_only \<noteq> GetProjects (Some ''[]'')
   \<and> list_users_request active_only \<noteq> GetUsers (Some ''[]'')
   \<and> list_time_entries_request work_package_id user_id \<noteq> GetTimeEntries (Some ''[]'')
   \<and> list_work_package_relations_request work_package_id relation_type \<noteq>
      ListWorkPackageRelations (Some ''[]'')"
proof -
  have none: "list_projects_request False = GetProjects None"
    "list_users_request False = GetUsers None"
    "list_time_entries_request None None = GetTimeEntries None"
    "list_work_package_relations_request None None = ListWorkPackageRelations None"
    by (simp_all add: list_projects_request_def list_projects_filters_def list_users_request_def
        list_users_filters_def list_time_entries_request_def list_time_entries_filters_def
        list_work_package_relations_request_def list_work_package_relations_filters_def
        dumps_or_none_def)
  have wp: "list_work_packages_request project_id status offset page_size \<noteq>
      GetWorkPackages project_id (Some ''[]'') offset page_size"
    by (simp add: list_work_packages_request_def list_work_packages_filters_def Let_def
        dumps_or_none_not_empty_array json_dumps_predicate_nonempty)
  have pr: "list_projects_request active_only \<noteq> GetProjects (Some ''[]'')"
    by (simp add: list_projects_request_def list_projects_filters_def predicate_def)
  have us: "list_users_request active_only \<noteq> GetUsers (Some ''[]'')"
    by (simp add: list_users_request_def list_users_filters_def predicate_def)
  have te: "list_time_entries_request work_package_id user_id \<noteq> GetTimeEntries (Some ''[]'')"
    by (simp add: list_time_entries_request_def list_time_entries_filters_def Let_def
        dumps_or_none_not_empty_array json_dumps_predicate_nonempty)
  have re: "list_work_package_relations_request work_package_id relation_type \<noteq>
      ListWorkPackageRelations (Some ''[]'')"
    by (simp add: list_work_package_relations_request_def list_work_package_relations_filters_def
        Let_def dumps_or_none_not_empty_array json_dumps_predicate_nonempty)
  from list_work_packages_filters_all none wp pr us te re show ?thesis
    by blast
qed

theorem filters_omitted_without_predicate_witness:
  "list_work_packages_request (Some 3) ''all'' (Some 0) (Some 50) =
      GetWorkPackages (Some 3) None (Some 0) (Some 50)
   \<and> list_projects_request False = GetProjects None
   \<and> list_users_request False = GetUsers None
   \<and> list_time_entries_request None None = GetTimeEntries None
   \<and> list_work_package_relations_request None None = ListWorkPackageRelations None
   \<and> list_time_entries_request (Some 12) None \<noteq> GetTimeEntries (Some ''[]'')"
  using filters_omitted_without_predicate
    [where project_id = "Some 3" and offset = "Some 0" and page_size = "Some 50"
       and status = "''all''" and active_only = True and work_package_id = "Some 12"
       and user_id = None and relation_type = None]
  by blast

section \<open>Payloads of create and update\<close>

lemma update_work_package_data_eq:
  "update_work_package_data subject description type_id status_id priority_id assignee_id percentage_done =
     filter (\<lambda>(k, v). is_not_none v)
       [(''subject'', opt_str subject), (''description'', opt_str description),
        (''type_id'', opt_int type_id), (''status_id'', opt_int status_id),
        (''priority_id'', opt_int priority_id), (''assignee_id'', opt_int assignee_id),
        (''percentage_done'', opt_int percentage_done)]"
  by (cases subject; cases description; cases type_id; cases status_id; cases priority_id;
      cases assignee_id; cases percentage_done)
     (simp_all add: update_work_package_data_def set_if_def)

lemma update_project_data_eq:
  "update_project_data name identifier description public status parent_id =
     filter (\<lambda>(k, v). is_not_none v)
       [(''name'', opt_str name), (''identifier'', opt_str identifier),
        (''description'', opt_str description), (''public'', opt_bool public),
        (''status'', opt_str status), (''parent_id'', opt_int parent_id)]"
  by (cases name; cases "identifier"; cases description; cases "public"; cases status; cases parent_id)
     (simp_all add: update_project_data_def set_if_def)

lemma create_work_package_data_eq:
  "create_work_package_data project_id subject type_id description priority_id assignee_id =
     [(''project'', PInt project_id), (''subject'', PStr subject), (''type'', PInt type_id)] @
     filter (\<lambda>(k, v). truthy v)
       [(''description'', opt_str description), (''priority_id'', opt_int priority_id),
        (''assignee_id'', opt_int assignee_id)]"
  by (simp add: create_work_package_data_def set_if_def)

lemma create_project_data_eq:
  "create_project_data name identifier description public status parent_id =
     [(''name'', PStr name), (''identifier'', PStr identifier), (''public'', PBool public)] @
     filter (\<lambda>(k, v). truthy v)
       [(''description'', opt_str description), (''status'', opt_str status),
        (''parent_id'', opt_int parent_id)]"
  by (simp add: create_project_data_def set_if_def)

lemma create_time_entry_data_eq:
  "create_time_entry_data work_package_id hours spent_on comment activity_id =
     [(''work_package_id'', PInt work_package_id), (''hours'', PFloat hours), (''spent_on'', PStr spent_on)] @
     filter (\<lambda>(k, v). truthy v)
       [(''comment'', opt_str comment), (''activity_id'', opt_int activity_id)]"
  by (simp add: create_time_entry_data_def set_if_def)

text \<open>
  C6. The payload of \<^verbatim>\<open>update_work_package\<close> and of \<^verbatim>\<open>update_project\<close> holds exactly the
  arguments that are not \<^verbatim>\<open>None\<close>, each under its key, in the order of the source. Once the
  client is available, the tool calls the client's update method with that payload, also
  when no optional field is set: the payload is then the empty dictionary and the request
  is still made.
\<close>

theorem partial_update_payload:
  assumes "get_client env rem st = (Inr c, st1)"
  shows
    "update_work_package_data subject description type_id status_id priority_id assignee_id percentage_done =
       filter (\<lambda>(k, v). is_not_none v)
         [(''subject'', opt_str subject), (''description'', opt_str description),
          (''type_id'', opt_int type_id), (''status_id'', opt_int status_id),
          (''priority_id'', opt_int priority_id), (''assignee_id'', opt_int assignee_id),
          (''percentage_done'', opt_int percentage_done)]
     \<and> update_project_data name identifier description public status parent_id =
       filter (\<lambda>(k, v). is_not_none v)
         [(''name'', opt_str name), (''identifier'', opt_str identifier),
          (''description'', opt_str description), (''public'', opt_bool public),
          (''status'', opt_str status), (''parent_id'', opt_int parent_id)]
     \<and> snd (update_work_package env rem st work_package_id subject description type_id status_id
              priority_id assignee_id percentage_done) =
       st1\<lparr>sent := sent st1 @
         [UpdateWorkPackage work_package_id
            (PDict (update_work_package_data subject description type_id status_id priority_id
                      assignee_id percentage_done))]\<rparr>
     \<and> snd (update_project env rem st project_id name identifier description public status parent_id) =
       st1\<lparr>sent := sent st1 @
         [UpdateProject project_id
            (PDict (update_project_data name identifier description public status parent_id))]\<rparr>
     \<and> snd (update_work_package env rem st work_package_id None None None None None None None) =
       st1\<lparr>sent := sent st1 @ [UpdateWorkPackage work_package_id (PDict [])]\<rparr>
     \<and> snd (update_project env rem st project_id None None None None None None) =
       st1\<lparr>sent := sent st1 @ [UpdateProject project_id (PDict [])]\<rparr>"
proof -
  have e1: "update_work_package_data None None None None None None None = []"
    by (simp add: update_work_package_data_eq)
  have e2: "update_project_data None None None None None None = []"
    by (simp add: update_project_data_eq)
  have s1: "snd (update_work_package env rem st work_package_id s d t x p a pd) =
       st1\<lparr>sent := sent st1 @
         [UpdateWorkPackage work_package_id (PDict (update_work_package_data s d t x p a pd))]\<rparr>"
    for s d t x p a pd
    unfolding update_work_package_def by (simp add: run_tool_call [OF assms])
  have s2: "snd (update_project env rem st project_id n i d pb x pa) =
       st1\<lparr>sent := sent st1 @ [UpdateProject project_id (PDict (update_project_data n i d pb x pa))]\<rparr>"
    for n i d pb x pa
    unfolding update_project_def by (simp add: run_tool_call [OF assms])
  from s1 [of None None None None None None None] e1
  have z1: "snd (update_work_package env rem st work_package_id None None None None None None None) =
       st1\<lparr>sent := sent st1 @ [UpdateWorkPackage work_package_id (PDict [])]\<rparr>"
    by simp
  from s2 [of None None None None None None] e2
  have z2: "snd (update_project env rem st project_id None None None None None None) =
       st1\<lparr>sent := sent st1 @ [UpdateProject project_id (PDict [])]\<rparr>"
    by simp
  show ?thesis
    by (intro conjI update_work_package_data_eq update_project_data_eq s1 s2 z1 z2)
qed

theorem partial_update_payload_witness:
  "update_work_package_data (Some ''Fix login'') None None (Some 2) None None None =
       [(''subject'', PStr ''Fix login''), (''status_id'', PInt 2)]
   \<and> snd (update_work_package (\<lambda>k. None) (\<lambda>h r. Inr PNone)
            \<lparr>client = Some \<lparr>base_url = ''https://op.example'', api_key = ''k'', proxy = None\<rparr>, sent = []\<rparr>
            5 None None None None None None None) =
       \<lparr>client = Some \<lparr>base_url = ''https://op.example'', api_key = ''k'', proxy = None\<rparr>,
        sent = [UpdateWorkPackage 5 (PDict [])]\<rparr>"
proof -
  let ?c = "\<lparr>base_url = ''https://op.example'', api_key = ''k'', proxy = None\<rparr>"
  let ?st = "\<lparr>client = Some ?c, sent = []\<rparr>"
  have g: "get_client (\<lambda>k. None) (\<lambda>h r. Inr PNone) ?st = (Inr ?c, ?st)"
    by (simp add: get_client_def)
  from partial_update_payload
    [OF g, where subject = "Some ''Fix login''" and description = None and type_id = None
       and status_id = "Some 2" and priority_id = None and assignee_id = None
       and percentage_done = None and work_package_id = 5]
  show ?thesis
    by simp
qed

text \<open>
  C10, as the code has it. The create tools (\<^verbatim>\<open>create_work_package\<close>, \<^verbatim>\<open>create_project\<close>,
  \<^verbatim>\<open>create_time_entry\<close>) keep an argument of type \<^verbatim>\<open>Optional\<close> only when it is truthy, so a
  supplied 0 or empty string is left out of the payload they send; the update tools
  (\<^verbatim>\<open>update_work_package\<close>, \<^verbatim>\<open>update_project\<close>) keep every argument that is not \<^verbatim>\<open>None\<close>,
  so 0, the empty string and \<^verbatim>\<open>False\<close> are sent. With \<^verbatim>\<open>priority_id=0\<close> the create payload
  has no priority and the update payload has priority 0. No create tool tests a boolean:
  \<^verbatim>\<open>public\<close> of \<^verbatim>\<open>create_project\<close> is always in the payload, \<^verbatim>\<open>False\<close> included. Once the
  client is available, each tool makes the one request that carries its payload.
\<close>

theorem create_truthiness_update_not_none:
  "create_work_package_data project_id subject type_id description priority_id assignee_id =
       [(''project'', PInt project_id), (''subject'', PStr subject), (''type'', PInt type_id)] @
       filter (\<lambda>(k, v). truthy v)
         [(''description'', opt_str description), (''priority_id'', opt_int priority_id),
          (''assignee_id'', opt_int assignee_id)]
   \<and> create_project_data name identifier description public status parent_id =
       [(''name'', PStr name), (''identifier'', PStr identifier), (''public'', PBool public)] @
       filter (\<lambda>(k, v). truthy v)
         [(''description'', opt_str description), (''status'', opt_str status),
          (''parent_id'', opt_int parent_id)]
   \<and> create_time_entry_data work_package_id hours spent_on comment activity_id =
       [(''work_package_id'', PInt work_package_id), (''hours'', PFloat hours),
        (''spent_on'', PStr spent_on)] @
       filter (\<lambda>(k, v). truthy v)
         [(''comment'', opt_str comment), (''activity_id'', opt_int activity_id)]
   \<and> update_work_package_data usubject udescription utype_id ustatus_id upriority_id uassignee_id
         upercentage_done =
       filter (\<lambda>(k, v). is_not_none v)
         [(''subject'', opt_str usubject), (''description'', opt_str udescription),
          (''type_id'', opt_int utype_id), (''status_id'', opt_int ustatus_id),
          (''priority_id'', opt_int upriority_id), (''assignee_id'', opt_int uassignee_id),
          (''percentage_done'', opt_int upercentage_done)]
   \<and> update_project_data uname uidentifier udescription upublic ustatus uparent_id =
       filter (\<lambda>(k, v). is_not_none v)
         [(''name'', opt_str uname), (''identifier'', opt_str uidentifier),
          (''description'', opt_str udescription), (''public'', opt_bool upublic),
          (''status'', opt_str ustatus), (''parent_id'', opt_int uparent_id)]
   \<and> (get_client env rem st = (Inr c, st1) \<longrightarrow>
        snd (create_work_package env rem st project_id subject type_id description priority_id
               assignee_id) =
          st1\<lparr>sent := sent st1 @
            [CreateWorkPackage (PDict
               ([(''project'', PInt project_id), (''subject'', PStr subject), (''type'', PInt type_id)] @
                filter (\<lambda>(k, v). truthy v)
                  [(''description'', opt_str description), (''priority_id'', opt_int priority_id),
                   (''assignee_id'', opt_int assignee_id)]))]\<rparr>
      \<and> snd (create_project env rem st name identifier description public status parent_id) =
          st1\<lparr>sent := sent st1 @
            [CreateProject (PDict
               ([(''name'', PStr name), (''identifier'', PStr identifier), (''public'', PBool public)] @
                filter (\<lambda>(k, v). truthy v)
                  [(''description'', opt_str description), (''status'', opt_str status),
                   (''parent_id'', opt_int parent_id)]))]\<rparr>
      \<and> snd (create_time_entry env rem st work_package_id hours spent_on comment activity_id) =
          st1\<lparr>sent := sent st1 @
            [CreateTimeEntry (PDict
               ([(''work_package_id'', PInt work_package_id), (''hours'', PFloat hours),
                 (''spent_on'', PStr spent_on)] @
                filter (\<lambda>(k, v). truthy v)
                  [(''comment'', opt_str comment), (''activity_id'', opt_int activity_id)]))]\<rparr>
      \<and> snd (update_work_package env rem st uwork_package_id usubject udescription utype_id
               ustatus_id upriority_id uassignee_id upercentage_done) =
          st1\<lparr>sent := sent st1 @
            [UpdateWorkPackage uwork_package_id (PDict
               (filter (\<lambda>(k, v). is_not_none v)
                  [(''subject'', opt_str usubject), (''description'', opt_str udescription),
                   (''type_id'', opt_int utype_id), (''status_id'', opt_int ustatus_id),
                   (''priority_id'', opt_int upriority_id), (''assignee_id'', opt_int uassignee_id),
                   (''percentage_done'', opt_int upercentage_done)]))]\<rparr>
      \<and> snd (update_project env rem st uproject_id uname uidentifier udescription upublic ustatus
               uparent_id) =
          st1\<lparr>sent := sent st1 @
            [UpdateProject uproject_id (PDict
               (filter (\<lambda>(k, v). is_not_none v)
                  [(''name'', opt_str uname), (''identifier'', opt_str uidentifier),
                   (''description'', opt_str udescription), (''public'', opt_bool upublic),
                   (''status'', opt_str ustatus), (''parent_id'', opt_int uparent_id)]))]\<rparr>)
   \<and> \<not> truthy (opt_int (Some 0)) \<and> \<not> truthy (opt_str (Some []))
   \<and> is_not_none (opt_int (Some 0)) \<and> is_not_none (opt_str (Some [])) \<and> is_not_none (opt_bool (Some False))
   \<and> map_of (create_work_package_data project_id subject type_id description (Some 0) assignee_id)
         ''priority_id'' = None
   \<and> map_of (update_work_package_data usubject udescription utype_id ustatus_id (Some 0) uassignee_id
         upercentage_done) ''priority_id'' = Some (PInt 0)
   \<and> map_of (create_project_data name identifier description public status parent_id) ''public'' =
         Some (PBool public)
   \<and> map_of (update_project_data uname uidentifier udescription (Some False) ustatus uparent_id)
         ''public'' = Some (PBool False)"
proof -
  have c: "map_of (create_work_package_data project_id subject type_id description (Some 0) assignee_id)
         ''priority_id'' = None"
    by (simp add: create_work_package_data_eq)
  have u: "map_of (update_work_package_data usubject udescription utype_id ustatus_id (Some 0) uassignee_id
         upercentage_done) ''priority_id'' = Some (PInt 0)"
    by (cases usubject; cases udescription; cases utype_id; cases ustatus_id)
       (simp_all add: update_work_package_data_eq)
  have pc: "map_of (create_project_data name identifier description public status parent_id) ''public'' =
         Some (PBool public)"
    by (simp add: create_project_data_eq)
  have pu: "map_of (update_project_data uname uidentifier udescription (Some False) ustatus uparent_id)
         ''public'' = Some (PBool False)"
    by (cases uname; cases uidentifier; cases udescription)
       (simp_all add: update_project_data_eq)
  have t1: "snd (create_work_package env rem st project_id subject type_id description priority_id
               assignee_id) =
          st1\<lparr>sent := sent st1 @
            [CreateWorkPackage (PDict (create_work_package_data project_id subject type_id description
               priority_id assignee_id))]\<rparr>"
    if "get_client env rem st = (Inr c, st1)"
    unfolding create_work_package_def by (simp add: run_tool_call [OF that])
  have t2: "snd (create_project env rem st name identifier description public status parent_id) =
          st1\<lparr>sent := sent st1 @
            [CreateProject (PDict (create_project_data name identifier description public status
               parent_id))]\<rparr>"
    if "get_client env rem st = (Inr c, st1)"
    unfolding create_project_def by (simp add: run_tool_call [OF that])
  have t3: "snd (create_time_entry env rem st work_package_id hours spent_on comment activity_id) =
          st1\<lparr>sent := sent st1 @
            [CreateTimeEntry (PDict (create_time_entry_data work_package_id hours spent_on comment
               activity_id))]\<rparr>"
    if "get_client env rem st = (Inr c, st1)"
    unfolding create_time_entry_def by (simp add: run_tool_call [OF that])
  have t4: "snd (update_work_package env rem st uwork_package_id usubject udescription utype_id
               ustatus_id upriority_id uassignee_id upercentage_done) =
          st1\<lparr>sent := sent st1 @
            [UpdateWorkPackage uwork_package_id (PDict (update_work_package_data usubject udescription
               utype_id ustatus_id upriority_id uassignee_id upercentage_done))]\<rparr>"
    if "get_client env rem st = (Inr c, st1)"
    unfolding update_work_package_def by (simp add: run_tool_call [OF that])
  have t5: "snd (update_project env rem st uproject_id uname uidentifier udescription upublic ustatus
               uparent_id) =
          st1\<lparr>sent := sent st1 @
            [UpdateProject uproject_id (PDict (update_project_data uname uidentifier udescription
               upublic ustatus uparent_id))]\<rparr>"
    if "get_client env rem st = (Inr c, st1)"
    unfolding update_project_def by (simp add: run_tool_call [OF that])
  have tools: "get_client env rem st = (Inr c, st1) \<longrightarrow>
        snd (create_work_package env rem st project_id subject type_id description priority_id
               assignee_id) =
          st1\<lparr>sent := sent st1 @
            [CreateWorkPackage (PDict
               ([(''project'', PInt project_id), (''subject'', PStr subject), (''type'', PInt type_id)] @
                filter (\<lambda>(k, v). truthy v)
                  [(''description'', opt_str description), (''priority_id'', opt_int priority_id),
                   (''assignee_id'', opt_int assignee_id)]))]\<rparr>
      \<and> snd (create_project env rem st name identifier description public status parent_id) =
          st1\<lparr>sent := sent st1 @
            [CreateProject (PDict
               ([(''name'', PStr name), (''identifier'', PStr identifier), (''public'', PBool public)] @
                filter (\<lambda>(k, v). truthy v)
                  [(''description'', opt_str description), (''status'', opt_str status),
                   (''parent_id'', opt_int parent_id)]))]\<rparr>
      \<and> snd (create_time_entry env rem st work_package_id hours spent_on comment activity_id) =
          st1\<lparr>sent := sent st1 @
            [CreateTimeEntry (PDict
               ([(''work_package_id'', PInt work_package_id), (''hours'', PFloat hours),
                 (''spent_on'', PStr spent_on)] @
                filter (\<lambda>(k, v). truthy v)
                  [(''comment'', opt_str comment), (''activity_id'', opt_int activity_id)]))]\<rparr>
      \<and> snd (update_work_package env rem st uwork_package_id usubject udescription utype_id
               ustatus_id upriority_id uassignee_id upercentage_done) =
          st1\<lparr>sent := sent st1 @
            [UpdateWorkPackage uwork_package_id (PDict
               (filter (\<lambda>(k, v). is_not_none v)
                  [(''subject'', opt_str usubject), (''description'', opt_str udescription),
                   (''type_id'', opt_int utype_id), (''status_id'', opt_int ustatus_id),
                   (''priority_id'', opt_int upriority_id), (''assignee_id'', opt_int uassignee_id),
                   (''percentage_done'', opt_int upercentage_done)]))]\<rparr>
      \<and> snd (update_project env rem st uproject_id uname uidentifier udescription upublic ustatus
               uparent_id) =
          st1\<lparr>sent := sent st1 @
            [UpdateProject uproject_id (PDict
               (filter (\<lambda>(k, v). is_not_none v)
                  [(''name'', opt_str uname), (''identifier'', opt_str uidentifier),
                   (''description'', opt_str udescription), (''public'', opt_bool upublic),
                   (''status'', opt_str ustatus), (''parent_id'', opt_int uparent_id)]))]\<rparr>"
    using t1 t2 t3 t4 t5
    by (simp only: create_work_package_data_eq create_project_data_eq create_time_entry_data_eq
          update_work_package_data_eq update_project_data_eq) blast
  show ?thesis
    by (intro conjI create_work_package_data_eq create_project_data_eq create_time_entry_data_eq
          update_work_package_data_eq update_project_data_eq tools c u pc pu) simp_all
qed

theorem create_truthiness_update_not_none_witness:
  "create_work_package_data 1 ''Write report'' 2 (Some []) (Some 0) (Some 9) =
       [(''project'', PInt 1), (''subject'', PStr ''Write report''), (''type'', PInt 2),
        (''assignee_id'', PInt 9)]
   \<and> update_work_package_data None (Some []) None None (Some 0) (Some 9) None =
       [(''description'', PStr []), (''priority_id'', PInt 0), (''assignee_id'', PInt 9)]
   \<and> snd (create_work_package (\<lambda>k. None) (\<lambda>h r. Inr PNone)
         \<lparr>client = Some \<lparr>base_url = ''https://op.example'', api_key = ''k'', proxy = None\<rparr>, sent = []\<rparr>
         1 ''Write report'' 2 (Some []) (Some 0) (Some 9)) =
       \<lparr>client = Some \<lparr>base_url = ''https://op.example'', api_key = ''k'', proxy = None\<rparr>,
        sent = [CreateWorkPackage (PDict [(''project'', PInt 1), (''subject'', PStr ''Write report''),
                                          (''type'', PInt 2), (''assignee_id'', PInt 9)])]\<rparr>
   \<and> snd (update_work_package (\<lambda>k. None) (\<lambda>h r. Inr PNone)
         \<lparr>client = Some \<lparr>base_url = ''https://op.example'', api_key = ''k'', proxy = None\<rparr>, sent = []\<rparr>
         5 None (Some []) None None (Some 0) (Some 9) None) =
       \<lparr>client = Some \<lparr>base_url = ''https://op.example'', api_key = ''k'', proxy = None\<rparr>,
        sent = [UpdateWorkPackage 5 (PDict [(''description'', PStr []), (''priority_id'', PInt 0),
                                            (''assignee_id'', PInt 9)])]\<rparr>"
proof -
  let ?c = "\<lparr>base_url = ''https://op.example'', api_key = ''k'', proxy = None\<rparr>"
  let ?st = "\<lparr>client = Some ?c, sent = []\<rparr>"
  have g: "get_client (\<lambda>k. None) (\<lambda>h r. Inr PNone) ?st = (Inr ?c, ?st)"
    by (simp add: get_client_def)
  from g create_truthiness_update_not_none
    [where project_id = 1 and subject = "''Write report''" and type_id = 2 and description = "Some []"
       and priority_id = "Some 0" and assignee_id = "Some 9" and usubject = None
       and udescription = "Some []" and utype_id = None and ustatus_id = None
       and upriority_id = "Some 0" and uassignee_id = "Some 9" and upercentage_done = None
       and uwork_package_id = 5
       and env = "\<lambda>k. None" and rem = "\<lambda>h r. Inr PNone" and st = ?st and c = ?c and ?st1.0 = ?st]
  show ?thesis
    by simp
qed

text \<open>
  The claim C10 as stated fails for \<^verbatim>\<open>False\<close>: the one boolean argument of a create tool,
  \<^verbatim>\<open>public\<close> of \<^verbatim>\<open>create_project\<close>, is put into the payload untested, so a supplied
  \<^verbatim>\<open>False\<close> is sent, not omitted.
\<close>

theorem create_project_public_false_counterexample:
  "create_project (\<lambda>k. None) (\<lambda>h r. Inr (PDict [(''name'', PStr ''Demo''), (''id'', PInt 1)]))
       \<lparr>client = Some \<lparr>base_url = ''https://op.example'', api_key = ''k'', proxy = None\<rparr>, sent = []\<rparr>
       ''Demo'' ''demo'' None False None None =
     ([Sym 0x2705, Lit '' Project created: **'', Val (PStr ''Demo''), Lit ''** (ID: '', Val (PInt 1),
       Lit '')''],
      \<lparr>client = Some \<lparr>base_url = ''https://op.example'', api_key = ''k'', proxy = None\<rparr>,
       sent = [CreateProject (PDict [(''name'', PStr ''Demo''), (''identifier'', PStr ''demo''),
                                      (''public'', PBool False)])]\<rparr>)"
  by (simp add: create_project_def run_tool_def get_client_def then_render_def call_client_def
        create_project_data_def set_if_def created_project_text_def)

section \<open>Preconditions checked before the request\<close>

text \<open>
  C5, as the code has it. \<^verbatim>\<open>create_membership\<close> with neither \<^verbatim>\<open>user_id\<close> nor \<^verbatim>\<open>group_id\<close>
  never calls the client's membership-creation method and makes no request of its own: it
  leaves the state that \<^verbatim>\<open>get_client\<close> left, so what has been sent is what was sent
  before, or that followed by the connection test of a first use. Once \<^verbatim>\<open>get_client\<close> has
  returned the handle the answer is the tool's own message, and when the client existed
  already the state is unchanged. With a truthy \<^verbatim>\<open>user_id\<close>, whatever \<^verbatim>\<open>group_id\<close> is, the
  payload sent holds \<^verbatim>\<open>user_id\<close> and no \<^verbatim>\<open>group_id\<close>.
\<close>

theorem create_membership_principal:
  "snd (create_membership env rem st project_id None None role_ids role_id) = snd (get_client env rem st)
   \<and> (sent (snd (create_membership env rem st project_id None None role_ids role_id)) = sent st
      \<or> sent (snd (create_membership env rem st project_id None None role_ids role_id)) =
          sent st @ [TestConnection])
   \<and> (get_client env rem st = (Inr c, st1) \<longrightarrow>
        create_membership env rem st project_id None None role_ids role_id = (membership_refused, st1))
   \<and> (client st = Some c \<longrightarrow>
        create_membership env rem st project_id None None role_ids role_id = (membership_refused, st))
   \<and> (get_client env rem st = (Inr c, st1) \<and> user_id \<noteq> 0 \<longrightarrow>
        create_membership env rem st project_id (Some user_id) group_id role_ids role_id =
          ((case rem (sent st1)
                   (CreateMembership (PDict (membership_roles
                      [(''project_id'', PInt project_id), (''user_id'', PInt user_id)] role_ids role_id))) of
              Inl e \<Rightarrow> error_text e
            | Inr r \<Rightarrow> [Sym 0x2705, Lit '' Membership created successfully'']),
           st1\<lparr>sent := sent st1 @
             [CreateMembership (PDict (membership_roles
                [(''project_id'', PInt project_id), (''user_id'', PInt user_id)] role_ids role_id))]\<rparr>)
        \<and> map_of (membership_roles [(''project_id'', PInt project_id), (''user_id'', PInt user_id)]
                    role_ids role_id) ''group_id'' = None)"
proof -
  have n: "membership_principal project_id None None = None"
    by (simp add: membership_principal_def)
  have own: "snd (create_membership env rem st project_id None None role_ids role_id) =
      snd (get_client env rem st)"
  proof (cases "get_client env rem st")
    case (Pair r st')
    then show ?thesis
      by (cases r) (simp_all add: create_membership_def run_tool_def n)
  qed
  have a: "create_membership env rem st project_id None None role_ids role_id = (membership_refused, st1)"
    if "get_client env rem st = (Inr c, st1)"
    using that by (simp add: create_membership_def run_tool_def n)
  have b: "create_membership env rem st project_id None None role_ids role_id = (membership_refused, st)"
    if "client st = Some c"
    using that by (simp add: create_membership_def run_tool_def n get_client_def)
  have p: "membership_principal project_id (Some user_id) group_id =
      Some [(''project_id'', PInt project_id), (''user_id'', PInt user_id)]" if "user_id \<noteq> 0"
    using that by (simp add: membership_principal_def)
  have d: "create_membership env rem st project_id (Some user_id) group_id role_ids role_id =
            ((case rem (sent st1)
                     (CreateMembership (PDict (membership_roles
                        [(''project_id'', PInt project_id), (''user_id'', PInt user_id)] role_ids role_id))) of
                Inl e \<Rightarrow> error_text e
              | Inr r \<Rightarrow> [Sym 0x2705, Lit '' Membership created successfully'']),
             st1\<lparr>sent := sent st1 @
               [CreateMembership (PDict (membership_roles
                  [(''project_id'', PInt project_id), (''user_id'', PInt user_id)] role_ids role_id))]\<rparr>)"
    if "get_client env rem st = (Inr c, st1)" "user_id \<noteq> 0"
    unfolding create_membership_def
    by (simp add: p [OF that(2)] run_tool_call [OF that(1)] split: sum.splits)
  have g: "map_of (membership_roles [(''project_id'', PInt project_id), (''user_id'', PInt user_id)]
                      role_ids role_id) ''group_id'' = None"
    by (simp add: membership_roles_def)
  from own get_client_sent [of env rem st]
  have only: "sent (snd (create_membership env rem st project_id None None role_ids role_id)) = sent st
      \<or> sent (snd (create_membership env rem st project_id None None role_ids role_id)) =
          sent st @ [TestConnection]"
    by simp
  from own only a b d g show ?thesis
    by blast
qed

theorem create_membership_principal_witness:
  "create_membership (\<lambda>k. None) (\<lambda>h r. Inr PNone)
       \<lparr>client = Some \<lparr>base_url = ''https://op.example'', api_key = ''k'', proxy = None\<rparr>, sent = []\<rparr>
       3 None None (Some [4]) None =
     (membership_refused,
      \<lparr>client = Some \<lparr>base_url = ''https://op.example'', api_key = ''k'', proxy = None\<rparr>, sent = []\<rparr>)
   \<and> snd (create_membership (\<lambda>k. None) (\<lambda>h r. Inr PNone)
       \<lparr>client = Some \<lparr>base_url = ''https://op.example'', api_key = ''k'', proxy = None\<rparr>, sent = []\<rparr>
       3 (Some 11) (Some 12) (Some [4]) None) =
      \<lparr>client = Some \<lparr>base_url = ''https://op.example'', api_key = ''k'', proxy = None\<rparr>,
       sent = [CreateMembership (PDict [(''project_id'', PInt 3), (''user_id'', PInt 11),
                                        (''role_ids'', PList [PInt 4])])]\<rparr>"
proof -
  let ?c = "\<lparr>base_url = ''https://op.example'', api_key = ''k'', proxy = None\<rparr>"
  let ?st = "\<lparr>client = Some ?c, sent = []\<rparr>"
  have g: "get_client (\<lambda>k. None) (\<lambda>h r. Inr PNone) ?st = (Inr ?c, ?st)"
    by (simp add: get_client_def)
  from g create_membership_principal
    [where env = "\<lambda>k. None" and rem = "\<lambda>h r. Inr PNone" and st = ?st and c = ?c and ?st1.0 = ?st
       and project_id = 3 and role_ids = "Some [4]" and role_id = None and user_id = 11
       and group_id = "Some 12"]
  show ?thesis
    by (simp add: membership_roles_def)
qed

text \<open>
  The claim C5 as stated fails at first use: with the connection test switched on,
  \<^verbatim>\<open>get_client\<close> (called at line 658, before the check) sends the test request, and only
  then does the tool refuse.
\<close>

theorem create_membership_first_use_counterexample:
  "create_membership
       (\<lambda>k. if k = ''OPENPROJECT_URL'' then Some ''https://op.example''
            else if k = ''OPENPROJECT_API_KEY'' then Some ''k''
            else if k = ''TEST_CONNECTION_ON_STARTUP'' then Some ''true''
            else None)
       (\<lambda>h r. Inr PNone) initial_state 3 None None None None =
     (membership_refused,
      \<lparr>client = Some \<lparr>base_url = ''https://op.example'', api_key = ''k'', proxy = None\<rparr>,
       sent = [TestConnection]\<rparr>)"
  by (simp add: create_membership_def run_tool_def get_client_def membership_principal_def
        initial_state_def call_client_def getenv_default_def lower_def lower_char_def Let_def)

text \<open>
  C4, as the code has it. \<^verbatim>\<open>create_work_package_relation\<close> compares \<^verbatim>\<open>from_id\<close> and
  \<^verbatim>\<open>to_id\<close> nowhere: once the client is available it calls the client's
  relation-creation method exactly once with a payload that holds both ids as given,
  equal or not, and what it returns is the success line, or the error line of whatever the
  client raises.
\<close>

theorem create_work_package_relation_always_sent:
  assumes "get_client env rem st = (Inr c, st1)"
  shows
    "create_work_package_relation env rem st from_id to_id relation_type lag description =
       ((case rem (sent st1)
                (CreateWorkPackageRelation
                   (PDict (create_work_package_relation_data from_id to_id relation_type lag description))) of
           Inl e \<Rightarrow> error_text e
         | Inr r \<Rightarrow> [Sym 0x2705, Lit '' Relation created: #'', Val (PInt from_id), Lit '' '',
                      Val (PStr relation_type), Lit '' #'', Val (PInt to_id)]),
        st1\<lparr>sent := sent st1 @
          [CreateWorkPackageRelation
             (PDict (create_work_package_relation_data from_id to_id relation_type lag description))]\<rparr>)
     \<and> create_work_package_relation_data from_id to_id relation_type lag description =
       [(''from_id'', PInt from_id), (''to_id'', PInt to_id), (''relation_type'', PStr relation_type)] @
       filter (\<lambda>(k, v). is_not_none v) [(''lag'', opt_int lag)] @
       filter (\<lambda>(k, v). truthy v) [(''description'', opt_str description)]"
proof -
  have d: "create_work_package_relation_data from_id to_id relation_type lag description =
       [(''from_id'', PInt from_id), (''to_id'', PInt to_id), (''relation_type'', PStr relation_type)] @
       filter (\<lambda>(k, v). is_not_none v) [(''lag'', opt_int lag)] @
       filter (\<lambda>(k, v). truthy v) [(''description'', opt_str description)]"
    by (cases lag) (simp_all add: create_work_package_relation_data_def set_if_def)
  have t: "create_work_package_relation env rem st from_id to_id relation_type lag description =
       ((case rem (sent st1)
                (CreateWorkPackageRelation
                   (PDict (create_work_package_relation_data from_id to_id relation_type lag description))) of
           Inl e \<Rightarrow> error_text e
         | Inr r \<Rightarrow> [Sym 0x2705, Lit '' Relation created: #'', Val (PInt from_id), Lit '' '',
                      Val (PStr relation_type), Lit '' #'', Val (PInt to_id)]),
        st1\<lparr>sent := sent st1 @
          [CreateWorkPackageRelation
             (PDict (create_work_package_relation_data from_id to_id relation_type lag description))]\<rparr>)"
    unfolding create_work_package_relation_def
    by (simp add: run_tool_call [OF assms] split: sum.splits)
  from t d show ?thesis by (rule conjI)
qed

theorem create_work_package_relation_always_sent_witness:
  "create_work_package_relation (\<lambda>k. None) (\<lambda>h r. Inl (ClientError ''422 Unprocessable Entity''))
       \<lparr>client = Some \<lparr>base_url = ''https://op.example'', api_key = ''k'', proxy = None\<rparr>, sent = []\<rparr>
       8 8 ''follows'' (Some 0) None =
     (error_text (ClientError ''422 Unprocessable Entity''),
      \<lparr>client = Some \<lparr>base_url = ''https://op.example'', api_key = ''k'', proxy = None\<rparr>,
       sent = [CreateWorkPackageRelation
                 (PDict [(''from_id'', PInt 8), (''to_id'', PInt 8), (''relation_type'', PStr ''follows''),
                         (''lag'', PInt 0)])]\<rparr>)"
proof -
  let ?c = "\<lparr>base_url = ''https://op.example'', api_key = ''k'', proxy = None\<rparr>"
  let ?st = "\<lparr>client = Some ?c, sent = []\<rparr>"
  have g: "get_client (\<lambda>k. None) (\<lambda>h r. Inl (ClientError ''422 Unprocessable Entity'')) ?st = (Inr ?c, ?st)"
    by (simp add: get_client_def)
  from create_work_package_relation_always_sent
    [OF g, where from_id = 8 and to_id = 8 and relation_type = "''follows''" and lag = "Some 0"
       and description = None]
  show ?thesis
    by simp
qed

text \<open>
  The claim C4 as stated fails: with \<^verbatim>\<open>from_id = to_id = 5\<close> and a client that answers, the
  tool calls the relation-creation method and reports success.
\<close>

theorem create_work_package_relation_self_edge_counterexample:
  "create_work_package_relation (\<lambda>k. None) (\<lambda>h r. Inr (PDict []))
       \<lparr>client = Some \<lparr>base_url = ''https://op.example'', api_key = ''k'', proxy = None\<rparr>, sent = []\<rparr>
       5 5 ''blocks'' None None =
     ([Sym 0x2705, Lit '' Relation created: #'', Val (PInt 5), Lit '' '', Val (PStr ''blocks''),
       Lit '' #'', Val (PInt 5)],
      \<lparr>client = Some \<lparr>base_url = ''https://op.example'', api_key = ''k'', proxy = None\<rparr>,
       sent = [CreateWorkPackageRelation
                 (PDict [(''from_id'', PInt 5), (''to_id'', PInt 5), (''relation_type'', PStr ''blocks'')])]\<rparr>)"
  by (simp add: create_work_package_relation_def run_tool_def get_client_def then_render_def
        call_client_def create_work_package_relation_data_def set_if_def)

section \<open>Reading a response\<close>




lemma render_work_packages_total:
  assumes "map_of r ''_embedded'' = Some (PDict e)"
    and "map_of e ''elements'' = Some (PList (x # xs))"
    and "render_each work_package_entry (x # xs) = Inr entries"
  shows "render_work_packages (PDict r) =
     Inr ([Sym 0x1F4DD, Lit '' Work Packages ('', Val (PInt (1 + int (length xs))), Lit '' of '',
           Val (case map_of r ''total'' of Some t \<Rightarrow> t | None \<Rightarrow> PInt (1 + int (length xs))),
           Lit ''):\<newline>\<newline>''] @ entries)"
  using assms by (simp add: render_work_packages_def)




text \<open>
  C9, evaluated where the code departs from it. The response holds one activity and no
  \<^verbatim>\<open>total\<close> field: \<^verbatim>\<open>list_time_entry_activities\<close> reads \<^verbatim>\<open>result['total']\<close>, so the
  \<^verbatim>\<open>KeyError\<close> becomes its answer, while \<^verbatim>\<open>list_work_packages\<close> on a response of the same
  shape reports the number of elements as the total.
\<close>

theorem list_time_entry_activities_missing_total:
  "list_time_entry_activities (\<lambda>k. None)
       (\<lambda>h r. Inr (PDict [(''_embedded'',
                  PDict [(''elements'', PList [PDict [(''id'', PInt 1), (''name'', PStr ''Development'')]])])]))
       \<lparr>client = Some \<lparr>base_url = ''https://op.example'', api_key = ''k'', proxy = None\<rparr>, sent = []\<rparr> =
     (error_text (KeyError ''total''),
      \<lparr>client = Some \<lparr>base_url = ''https://op.example'', api_key = ''k'', proxy = None\<rparr>,
       sent = [GetTimeEntryActivities]\<rparr>)
   \<and> list_work_packages (\<lambda>k. None)
       (\<lambda>h r. Inr (PDict [(''_embedded'',
                  PDict [(''elements'', PList [PDict [(''id'', PInt 1), (''subject'', PStr ''Fix login'')]])])]))
       \<lparr>client = Some \<lparr>base_url = ''https://op.example'', api_key = ''k'', proxy = None\<rparr>, sent = []\<rparr>
       None ''all'' None None =
     ([Sym 0x1F4DD, Lit '' Work Packages ('', Val (PInt 1), Lit '' of '', Val (PInt 1), Lit ''):\<newline>\<newline>'',
       Lit ''#'', Val (PInt 1), Lit '' - **'', Val (PStr ''Fix login''), Lit ''**\<newline>'',
       Lit ''   Status: '', Val (PStr ''Unknown''), Lit ''\<newline>'',
       Lit ''   Type: '', Val (PStr ''N/A''), Lit ''\<newline>'',
       Lit ''\<newline>''],
      \<lparr>client = Some \<lparr>base_url = ''https://op.example'', api_key = ''k'', proxy = None\<rparr>,
       sent = [GetWorkPackages None None None None]\<rparr>)"
proof -
  let ?c = "\<lparr>base_url = ''https://op.example'', api_key = ''k'', proxy = None\<rparr>"
  let ?st = "\<lparr>client = Some ?c, sent = []\<rparr>"
  have g: "get_client (\<lambda>k. None) rem ?st = (Inr ?c, ?st)" for rem
    by (simp add: get_client_def)
  have a: "render_time_entry_activities (PDict [(''_embedded'',
      PDict [(''elements'', PList [PDict [(''id'', PInt 1), (''name'', PStr ''Development'')]])])])
     = Inl (KeyError ''total'')"
    by (simp add: render_time_entry_activities_def)
  have w: "render_work_packages (PDict [(''_embedded'',
      PDict [(''elements'', PList [PDict [(''id'', PInt 1), (''subject'', PStr ''Fix login'')]])])])
    = Inr [Sym 0x1F4DD, Lit '' Work Packages ('', Val (PInt 1), Lit '' of '', Val (PInt 1), Lit ''):\<newline>\<newline>'',
       Lit ''#'', Val (PInt 1), Lit '' - **'', Val (PStr ''Fix login''), Lit ''**\<newline>'',
       Lit ''   Status: '', Val (PStr ''Unknown''), Lit ''\<newline>'',
       Lit ''   Type: '', Val (PStr ''N/A''), Lit ''\<newline>'',
       Lit ''\<newline>'']"
    by (simp add: render_work_packages_def work_package_entry_def list_status_name_def
        list_wp_type_def list_assignee_def embedded_name_def optional_embedded_name_def
        optional_line_def)
  have r: "list_work_packages_request None ''all'' None None = GetWorkPackages None None None None"
    by (rule list_work_packages_filters_all)
  show ?thesis
    unfolding list_time_entry_activities_def list_work_packages_def
    by (simp add: run_tool_call [OF g] a w r)
qed

section \<open>Correctness of the traversal\<close>

lemma fetch_children_ids: "set (map wi_id (fetch_children h p)) = direct_children h p"
  by (auto simp: fetch_children_def direct_children_def child_rel_def)

lemma descendants_closed:
  assumes r: "r \<in> S" and closed: "\<And>x c. x \<in> S \<Longrightarrow> (x, c) \<in> child_rel h \<Longrightarrow> c \<in> S"
  shows "descendants h r \<subseteq> S"
proof
  fix c
  assume "c \<in> descendants h r"
  then have "(r, c) \<in> (child_rel h)\<^sup>+" by (simp add: descendants_def)
  then show "c \<in> S"
  proof (induction rule: trancl_induct)
    case (base y)
    with r closed show ?case by blast
  next
    case (step y z)
    with closed show ?case by blast
  qed
qed

lemma child_of_reached:
  assumes "x \<in> insert r (descendants h r)" and "(x, c) \<in> child_rel h"
  shows "c \<in> descendants h r"
  using assms by (auto simp: descendants_def intro: trancl_into_trancl)

lemma expand_invariant:
  assumes "set seen = insert r (set (map wi_id acc))"
    and "distinct (map wi_id acc)"
    and "r \<notin> set (map wi_id acc)"
    and "set pending \<subseteq> set seen"
    and "set seen \<subseteq> insert r (descendants h r)"
    and "\<And>x c. x \<in> set seen \<Longrightarrow> x \<notin> set pending \<Longrightarrow> (x, c) \<in> child_rel h \<Longrightarrow> c \<in> set seen"
    and "set acc \<subseteq> set h"
  shows "set (map wi_id (expand h pending seen acc)) = descendants h r - {r}
       \<and> distinct (map wi_id (expand h pending seen acc))
       \<and> set (expand h pending seen acc) \<subseteq> set h"
  using assms
proof (induction h pending seen acc rule: expand.induct)
  case (1 h seen acc)
  have "descendants h r \<subseteq> set seen"
    by (rule descendants_closed [where S = "set seen"]) (use 1 in auto)
  with 1 have seen: "set seen = insert r (descendants h r)" by blast
  from "1.prems"(1,3) have "set (map wi_id acc) = set seen - {r}" by auto
  with seen have "set (map wi_id acc) = descendants h r - {r}" by auto
  with 1 show ?case by simp
next
  case (2 h p pending seen acc)
  define fresh where "fresh = admit seen (fetch_children h p)"
  have ids: "set (map wi_id fresh) = direct_children h p - set seen"
    by (simp only: fresh_def admit_ids fetch_children_ids)
  have dist: "distinct (map wi_id fresh)"
    by (simp only: fresh_def admit_distinct)
  have sub: "set fresh \<subseteq> set h"
    using admit_subset [of seen "fetch_children h p"] by (auto simp: fresh_def fetch_children_def)
  have p_seen: "p \<in> set seen" using "2.prems"(4) by simp
  have a: "set (seen @ map wi_id fresh) = insert r (set (map wi_id (acc @ fresh)))"
    using "2.prems"(1) by auto
  have b: "distinct (map wi_id (acc @ fresh))"
    using "2.prems"(1,2) dist ids by auto
  have c: "r \<notin> set (map wi_id (acc @ fresh))"
    using "2.prems"(1,3) ids by auto
  have d: "set (pending @ map wi_id fresh) \<subseteq> set (seen @ map wi_id fresh)"
    using "2.prems"(4) by auto
  have e: "set (seen @ map wi_id fresh) \<subseteq> insert r (descendants h r)"
  proof -
    have "direct_children h p \<subseteq> descendants h r"
      using child_of_reached [of p r h] p_seen "2.prems"(5)
      by (auto simp: direct_children_def)
    with ids "2.prems"(5) show ?thesis by auto
  qed
  have f: "c \<in> set (seen @ map wi_id fresh)"
    if "x \<in> set (seen @ map wi_id fresh)" "x \<notin> set (pending @ map wi_id fresh)" "(x, c) \<in> child_rel h"
    for x c
  proof (cases "x = p")
    case True
    with that(3) have "c \<in> direct_children h p" by (simp add: direct_children_def)
    with ids show ?thesis by auto
  next
    case False
    with that have "x \<in> set seen" "x \<notin> set (p # pending)" by auto
    with "2.prems"(6) that(3) have "c \<in> set seen" by blast
    then show ?thesis by simp
  qed
  have g: "set (acc @ fresh) \<subseteq> set h"
    using "2.prems"(7) sub by auto
  have "set (map wi_id (expand h (pending @ map wi_id fresh) (seen @ map wi_id fresh) (acc @ fresh)))
          = descendants h r - {r}
      \<and> distinct (map wi_id (expand h (pending @ map wi_id fresh) (seen @ map wi_id fresh) (acc @ fresh)))
      \<and> set (expand h (pending @ map wi_id fresh) (seen @ map wi_id fresh) (acc @ fresh)) \<subseteq> set h"
    by (rule "2.IH" [OF fresh_def a b c d e f g])
  then show ?case
    by (simp add: fresh_def Let_def)
qed

lemma acyclic_not_own_descendant: "acyclic (child_rel h) \<Longrightarrow> r \<notin> descendants h r"
  by (auto simp: descendants_def acyclic_def)

lemma child_entry_json:
  "child_entry (work_item_json w) =
     Inr [Lit ''#'', Val (PInt (wi_id w)), Lit '' - **'', Val (PStr (wi_subject w)), Lit ''**\<newline>'']"
  by (simp add: child_entry_def work_item_json_def)

lemma render_each_children:
  "render_each child_entry (map work_item_json ws) =
     Inr (concat (map (\<lambda>w. [Lit ''#'', Val (PInt (wi_id w)), Lit '' - **'', Val (PStr (wi_subject w)),
                              Lit ''**\<newline>'']) ws))"
  by (induction ws) (simp_all add: child_entry_json)

lemma render_children_collection:
  "render_children parent_id (collection (map work_item_json ws)) = Inr (children_text parent_id ws)"
  by (simp add: render_children_def collection_def children_text_def render_each_children)

lemma increasing_ids_acyclic:
  assumes "\<And>w p. w \<in> set h \<Longrightarrow> wi_parent w = Some p \<Longrightarrow> p < wi_id w"
  shows "acyclic (child_rel h)"
proof -
  have sub: "child_rel h \<subseteq> {(a, b). a < b}"
    using assms by (auto simp: child_rel_def)
  have "trans {(a, b). (a::int) < b}"
    by (auto simp: trans_def)
  then have "{(a, b). (a::int) < b}\<^sup>+ = {(a, b). a < b}"
    by (rule trancl_id)
  with trancl_mono [OF _ sub] have "(x, y) \<in> (child_rel h)\<^sup>+ \<Longrightarrow> x < y" for x y
    by blast
  then show ?thesis
    by (auto simp: acyclic_def)
qed

text \<open>
  C1. In a hierarchy where every id occurs once and the parent/child relation is acyclic,
  \<open>children\<close> without descendants returns exactly the direct children of \<open>parent_id\<close>,
  and with descendants exactly its transitive descendants, no id twice in either result;
  every item returned is an item of the service. With the client available, the tool
  \<^verbatim>\<open>list_work_package_children\<close> makes the one request and lists exactly these items.
\<close>

theorem children_correct:
  assumes "distinct (map wi_id h)" and "acyclic (child_rel h)"
    and "get_client env (service h) st = (Inr c, st1)"
  shows "set (map wi_id (children h parent_id False)) = direct_children h parent_id
       \<and> distinct (map wi_id (children h parent_id False))
       \<and> set (map wi_id (children h parent_id True)) = descendants h parent_id
       \<and> distinct (map wi_id (children h parent_id True))
       \<and> set (children h parent_id include_descendants) \<subseteq> set h
       \<and> list_work_package_children env (service h) st parent_id include_descendants =
           (children_text parent_id (children h parent_id include_descendants),
            st1\<lparr>sent := sent st1 @ [ListWorkPackageChildren parent_id include_descendants]\<rparr>)"
proof -
  have direct: "set (map wi_id (children h parent_id False)) = direct_children h parent_id"
    by (simp add: children_def fetch_children_ids del: set_map)
  have direct_distinct: "distinct (map wi_id (children h parent_id False))"
    using assms(1) by (simp add: children_def fetch_children_def distinct_map_filter)
  have direct_sub: "set (children h parent_id False) \<subseteq> set h"
    by (auto simp: children_def fetch_children_def)
  have inv: "set (map wi_id (expand h [parent_id] [parent_id] [])) = descendants h parent_id - {parent_id}
       \<and> distinct (map wi_id (expand h [parent_id] [parent_id] []))
       \<and> set (expand h [parent_id] [parent_id] []) \<subseteq> set h"
    by (rule expand_invariant) auto
  from inv acyclic_not_own_descendant [OF assms(2), of parent_id]
  have all: "set (map wi_id (children h parent_id True)) = descendants h parent_id"
    "distinct (map wi_id (children h parent_id True))"
    "set (children h parent_id True) \<subseteq> set h"
    by (auto simp: children_def)
  from direct_sub all(3) have sub: "set (children h parent_id include_descendants) \<subseteq> set h"
    by (cases include_descendants) auto
  have tool: "list_work_package_children env (service h) st parent_id include_descendants =
           (children_text parent_id (children h parent_id include_descendants),
            st1\<lparr>sent := sent st1 @ [ListWorkPackageChildren parent_id include_descendants]\<rparr>)"
    unfolding list_work_package_children_def
    by (simp add: run_tool_call [OF assms(3)] service_def render_children_collection)
  from direct direct_distinct all(1,2) sub tool show ?thesis
    by blast
qed

theorem children_correct_witness:
  "map wi_id (children example_tree 1 False) = [2, 3]
   \<and> direct_children example_tree 1 = {2, 3}
   \<and> map wi_id (children example_tree 1 True) = [2, 3, 4]
   \<and> descendants example_tree 1 = {2, 3, 4}"
proof -
  let ?c = "\<lparr>base_url = ''https://op.example'', api_key = ''k'', proxy = None\<rparr>"
  let ?st = "\<lparr>client = Some ?c, sent = []\<rparr>"
  have g: "get_client (\<lambda>k. None) (service example_tree) ?st = (Inr ?c, ?st)"
    by (simp add: get_client_def)
  have d: "distinct (map wi_id example_tree)"
    by (simp add: example_tree_def)
  have a: "acyclic (child_rel example_tree)"
    by (rule increasing_ids_acyclic) (auto simp: example_tree_def)
  have f: "map wi_id (children example_tree 1 False) = [2, 3]"
    by (simp add: children_def fetch_children_def example_tree_def)
  have t: "map wi_id (children example_tree 1 True) = [2, 3, 4]"
    by (simp add: children_def fetch_children_def example_tree_def)
  from children_correct [OF d a g, of 1 True] f t show ?thesis
    by auto
qed

end
